theory Spec2Isabelle
  imports Main "HOL-Library.Word" "HOL-Library.Sublist"
begin

section \<open>ServerForge: a shallow embedding of the installation engine\<close>

text \<open>
  The definitions follow the Python sources under \<^verbatim>\<open>src/svforge\<close>. Exceptions are
  values of \<open>py_exc\<close>; a function that may raise returns \<open>py_exc + 'a\<close> with
  \<open>Inl\<close> for the raised exception. Whatever the operating system or the network
  decides (the bytes of a response, the content of the disk) is an explicit argument.
\<close>

subsection \<open>Exceptions\<close>

datatype py_exc =
    AttributeError
  | KeyError
  | TypeError
  | ValueError
  | RuntimeError
  | OSError
  | RequestError
  | HTTPStatusError
  | InvalidVersion
  | APIError
  | DownloadError
  | PathValidationError
  | ValidationError
  | UnsupportedVersionError
  | ServerInstallationError string "py_exc option"
  | KeyboardInterrupt
  | CancelledError

text \<open>
  \<^verbatim>\<open>ServerInstallationError\<close> carries its message and the exception it was raised
  \<^verbatim>\<open>from\<close>, if any. \<^verbatim>\<open>except Exception\<close> catches every exception above except
  \<^verbatim>\<open>KeyboardInterrupt\<close> and \<^verbatim>\<open>asyncio.CancelledError\<close>, which derive from
  \<^verbatim>\<open>BaseException\<close> only.
\<close>

fun is_Exception :: "py_exc \<Rightarrow> bool" where
  "is_Exception KeyboardInterrupt = False"
| "is_Exception CancelledError = False"
| "is_Exception e = True"

text \<open>\<^verbatim>\<open>try: return body  except Exception: return fallback\<close>\<close>

definition except_Exception :: "py_exc + 'a \<Rightarrow> 'a \<Rightarrow> py_exc + 'a" where
  "except_Exception body fallback =
     (case body of
        Inl e \<Rightarrow> if is_Exception e then Inr fallback else Inl e
      | Inr v \<Rightarrow> Inr v)"

text \<open>Sequencing of two computations that may raise.\<close>

definition bind_exc :: "py_exc + 'a \<Rightarrow> ('a \<Rightarrow> py_exc + 'b) \<Rightarrow> py_exc + 'b" where
  "bind_exc m f = (case m of Inl e \<Rightarrow> Inl e | Inr v \<Rightarrow> f v)"

text \<open>Logging: the records handed to \<^verbatim>\<open>logger\<close>, oldest first.\<close>

datatype log_level = DEBUG | INFO | WARNING | ERROR

type_synonym log = "(log_level \<times> string) list"

text \<open>The apostrophe that the messages of the sources put around names.\<close>

definition apostrophe :: string where
  "apostrophe = [CHR 0x27]"


subsection \<open>JSON values and the network\<close>

text \<open>
  What \<^verbatim>\<open>response.json()\<close> returns: \<^verbatim>\<open>None\<close>, a truth value, a number, a string, a
  list or a dictionary (its items in order, keys unique).
\<close>

datatype json =
    JNull
  | JBool bool
  | JInt int
  | JStr string
  | JList "json list"
  | JObj "(string \<times> json) list"

text \<open>\<^verbatim>\<open>d[key]\<close> with a string key.\<close>

definition subscript :: "json \<Rightarrow> string \<Rightarrow> py_exc + json" where
  "subscript d k =
     (case d of
        JObj items \<Rightarrow> (case map_of items k of None \<Rightarrow> Inl KeyError | Some v \<Rightarrow> Inr v)
      | _ \<Rightarrow> Inl TypeError)"

text \<open>\<^verbatim>\<open>d.get(key, default)\<close>: only dictionaries have the method.\<close>

definition dict_get :: "json \<Rightarrow> string \<Rightarrow> json \<Rightarrow> py_exc + json" where
  "dict_get d k dflt =
     (case d of
        JObj items \<Rightarrow> (case map_of items k of None \<Rightarrow> Inr dflt | Some v \<Rightarrow> Inr v)
      | _ \<Rightarrow> Inl AttributeError)"

text \<open>\<^verbatim>\<open>key in d\<close> with a string key: a key of a dictionary, an element of a list, a
  substring of a string; anything else is not iterable.\<close>

definition contains :: "string \<Rightarrow> json \<Rightarrow> py_exc + bool" where
  "contains k d =
     (case d of
        JObj items \<Rightarrow> Inr (k \<in> set (map fst items))
      | JList xs \<Rightarrow> Inr (JStr k \<in> set xs)
      | JStr s \<Rightarrow> Inr (sublist k s)
      | _ \<Rightarrow> Inl TypeError)"

text \<open>The truth value of a JSON value in a condition.\<close>

definition truthy :: "json \<Rightarrow> bool" where
  "truthy d =
     (case d of
        JNull \<Rightarrow> False
      | JBool b \<Rightarrow> b
      | JInt n \<Rightarrow> n \<noteq> 0
      | JStr s \<Rightarrow> s \<noteq> []
      | JList xs \<Rightarrow> xs \<noteq> []
      | JObj items \<Rightarrow> items \<noteq> [])"

text \<open>\<^verbatim>\<open>for v in d\<close>: the elements of a list, the keys of a dictionary, the characters
  of a string.\<close>

definition py_iter :: "json \<Rightarrow> py_exc + json list" where
  "py_iter d =
     (case d of
        JList xs \<Rightarrow> Inr xs
      | JObj items \<Rightarrow> Inr (map (\<lambda>(k, v). JStr k) items)
      | JStr s \<Rightarrow> Inr (map (\<lambda>c. JStr [c]) s)
      | _ \<Rightarrow> Inl TypeError)"

text \<open>
  The network answers a request for a URL with a failure to connect, an error status, a
  body that is not JSON, or a JSON body. The answer may depend on how many requests were
  made before; every request is recorded.
\<close>

datatype http_reply = ConnectionFailed | BadStatus | NotJson | Body json

record network =
  replies :: "nat \<Rightarrow> string \<Rightarrow> http_reply"
  requests :: "string list"

definition next_reply :: "network \<Rightarrow> string \<Rightarrow> http_reply" where
  "next_reply nw url = replies nw (length (requests nw)) url"

definition http_get :: "string \<Rightarrow> network \<Rightarrow> http_reply \<times> network" where
  "http_get url nw = (next_reply nw url, nw\<lparr>requests := requests nw @ [url]\<rparr>)"

text \<open>
  \<^verbatim>\<open>requests.get(url)\<close>, \<^verbatim>\<open>raise_for_status()\<close>, \<^verbatim>\<open>response.json()\<close> one after
  the other, as several methods spell them out.
\<close>

definition requests_get_json :: "string \<Rightarrow> network \<Rightarrow> (py_exc + json) \<times> network" where
  "requests_get_json url nw =
     (case http_get url nw of
        (ConnectionFailed, nw1) \<Rightarrow> (Inl RequestError, nw1)
      | (BadStatus, nw1) \<Rightarrow> (Inl HTTPStatusError, nw1)
      | (NotJson, nw1) \<Rightarrow> (Inl ValueError, nw1)
      | (Body j, nw1) \<Rightarrow> (Inr j, nw1))"

text \<open>\<^verbatim>\<open>BaseHTTPClient.get_json\<close>: every failure becomes \<^verbatim>\<open>APIError\<close>.\<close>

definition get_json :: "string \<Rightarrow> network \<Rightarrow> (py_exc + json) \<times> network" where
  "get_json url nw =
     (case requests_get_json url nw of
        (Inl e, nw1) \<Rightarrow> (Inl APIError, nw1)
      | (Inr j, nw1) \<Rightarrow> (Inr j, nw1))"

text \<open>\<^verbatim>\<open>BaseVersionAPI\<close>: \<^verbatim>\<open>base_url.rstrip('/')\<close> and \<^verbatim>\<open>build_url\<close>.\<close>

definition rstrip_slash :: "string \<Rightarrow> string" where
  "rstrip_slash s = rev (dropWhile (\<lambda>c. c = CHR ''/'') (rev s))"

definition lstrip_slash :: "string \<Rightarrow> string" where
  "lstrip_slash s = dropWhile (\<lambda>c. c = CHR ''/'') s"

definition build_url :: "string \<Rightarrow> string \<Rightarrow> string" where
  "build_url base_url endpoint = base_url @ ''/'' @ lstrip_slash endpoint"

text \<open>\<^verbatim>\<open>constants.py\<close>\<close>

definition MOJANG_MANIFEST_URL :: string where
  "MOJANG_MANIFEST_URL = ''https://launchermeta.mojang.com/mc/game/version_manifest.json''"

definition PAPER_API_URL :: string where
  "PAPER_API_URL = ''https://api.papermc.io/v2''"

definition LEAF_API_URL :: string where
  "LEAF_API_URL = ''https://api.leafmc.one''"

subsection \<open>\<^verbatim>\<open>utils/base_api.py\<close>: \<^verbatim>\<open>CachedAPIClient\<close>\<close>

text \<open>The dictionary \<^verbatim>\<open>self._cache\<close>. The value \<^verbatim>\<open>None\<close> is \<open>JNull\<close>.\<close>

type_synonym cache = "string \<rightharpoonup> json"

text \<open>
  \<^verbatim>\<open>get_cached_or_fetch\<close>: the fetch function runs against the network; the result is
  the returned value or raised exception, the cache and the network afterwards.
\<close>

definition get_cached_or_fetch ::
  "string \<Rightarrow> (network \<Rightarrow> (py_exc + json) \<times> network) \<Rightarrow> cache \<Rightarrow> network
     \<Rightarrow> (py_exc + json) \<times> cache \<times> network"
where
  "get_cached_or_fetch cache_key fetch_func cache nw =
     (case cache cache_key of
        None \<Rightarrow>
          (case fetch_func nw of
             (Inl e, nw1) \<Rightarrow>
               if is_Exception e then (Inr JNull, cache, nw1) else (Inl e, cache, nw1)
           | (Inr v, nw1) \<Rightarrow> (Inr v, cache(cache_key \<mapsto> v), nw1))
      | Some v \<Rightarrow> (Inr v, cache, nw))"

text \<open>\<^verbatim>\<open>PaperAPI._fetch_version_info\<close>: \<^verbatim>\<open>except Exception: return None\<close>.\<close>

definition PaperAPI_fetch_version_info :: "string \<Rightarrow> network \<Rightarrow> (py_exc + json) \<times> network" where
  "PaperAPI_fetch_version_info version nw =
     (case get_json (build_url (rstrip_slash PAPER_API_URL) (''projects/paper/versions/'' @ version)) nw of
        (r, nw1) \<Rightarrow> (except_Exception r JNull, nw1))"

text \<open>\<^verbatim>\<open>MinecraftServerAPI.get_version_info\<close>, as \<^verbatim>\<open>PaperAPI\<close> inherits it.\<close>

definition PaperAPI_get_version_info ::
  "string \<Rightarrow> cache \<Rightarrow> network \<Rightarrow> (py_exc + json) \<times> cache \<times> network"
where
  "PaperAPI_get_version_info version cache nw =
     get_cached_or_fetch (''version_info_'' @ version) (PaperAPI_fetch_version_info version) cache nw"

text \<open>A network whose first request finds no connection and whose later requests
  all succeed.\<close>

definition flaky_network :: network where
  "flaky_network =
     \<lparr>replies = (\<lambda>n url. if n = 0 then ConnectionFailed
                          else Body (JObj [(''version'', JStr ''1.21''),
                                           (''builds'', JList [JInt 1, JInt 2])])),
      requests = []\<rparr>"

subsection \<open>\<^verbatim>\<open>utils/api.py\<close>: version and build lists\<close>

text \<open>\<^verbatim>\<open>PaperAPI.get_available_versions\<close> and \<^verbatim>\<open>PaperAPI.get_builds\<close>\<close>

definition PaperAPI_get_available_versions :: "network \<Rightarrow> (py_exc + json) \<times> network" where
  "PaperAPI_get_available_versions nw =
     (case get_json (build_url (rstrip_slash PAPER_API_URL) ''projects/paper'') nw of
        (r, nw1) \<Rightarrow>
          (except_Exception (bind_exc r (\<lambda>data. dict_get data ''versions'' (JList []))) (JList []),
           nw1))"

definition PaperAPI_get_builds :: "string \<Rightarrow> network \<Rightarrow> (py_exc + json) \<times> network" where
  "PaperAPI_get_builds version nw =
     (case get_json (build_url (rstrip_slash PAPER_API_URL) (''projects/paper/versions/'' @ version)) nw of
        (r, nw1) \<Rightarrow>
          (except_Exception (bind_exc r (\<lambda>data. dict_get data ''builds'' (JList []))) (JList []),
           nw1))"

text \<open>\<^verbatim>\<open>LeafAPI.get_available_versions\<close> and \<^verbatim>\<open>LeafAPI.get_builds\<close>\<close>

definition LeafAPI_get_available_versions :: "network \<Rightarrow> (py_exc + json) \<times> network" where
  "LeafAPI_get_available_versions nw =
     (case get_json (build_url (rstrip_slash LEAF_API_URL) ''projects/leaf'') nw of
        (r, nw1) \<Rightarrow>
          (except_Exception (bind_exc r (\<lambda>data. dict_get data ''versions'' (JList []))) (JList []),
           nw1))"

definition LeafAPI_get_builds :: "string \<Rightarrow> network \<Rightarrow> (py_exc + json) \<times> network" where
  "LeafAPI_get_builds version nw =
     (case get_json (build_url (rstrip_slash LEAF_API_URL) (''projects/leaf/versions/'' @ version)) nw of
        (r, nw1) \<Rightarrow>
          (except_Exception (bind_exc r (\<lambda>data. dict_get data ''builds'' (JList []))) (JList []),
           nw1))"

text \<open>
  An instance of \<^verbatim>\<open>MinecraftVersionAPI\<close>. Its methods read five attributes that
  neither \<^verbatim>\<open>__init__\<close> nor any class in the hierarchy defines; reading a missing
  attribute raises \<^verbatim>\<open>AttributeError\<close>. Each of them is a field that is \<open>None\<close>
  when the object has no such attribute.
\<close>

record MinecraftVersionAPI =
  base_url :: string
  attr_MOJANG_MANIFEST_URL :: "string option"
  attr_PAPER_API_URL :: "string option"
  attr_LEAF_API_URL :: "string option"
  attr_version_cache :: "(string \<times> json) list option"
  attr_client :: "unit option"

text \<open>\<^verbatim>\<open>MinecraftVersionAPI.__init__\<close> (through \<^verbatim>\<open>BaseVersionAPI.__init__\<close>).\<close>

definition MinecraftVersionAPI_init :: MinecraftVersionAPI where
  "MinecraftVersionAPI_init =
     \<lparr>base_url = rstrip_slash MOJANG_MANIFEST_URL,
      attr_MOJANG_MANIFEST_URL = None, attr_PAPER_API_URL = None, attr_LEAF_API_URL = None,
      attr_version_cache = None, attr_client = None\<rparr>"

text \<open>Reading an attribute of \<^verbatim>\<open>self\<close>.\<close>

definition getattr :: "'a option \<Rightarrow> py_exc + 'a" where
  "getattr a = (case a of None \<Rightarrow> Inl AttributeError | Some v \<Rightarrow> Inr v)"

text \<open>\<^verbatim>\<open>[v["id"] for v in ... if v["type"] == "release"]\<close>\<close>

fun release_ids :: "json list \<Rightarrow> py_exc + json list" where
  "release_ids [] = Inr []"
| "release_ids (v # vs) =
     bind_exc (subscript v ''type'') (\<lambda>t.
       if t = JStr ''release''
       then bind_exc (subscript v ''id'') (\<lambda>i. bind_exc (release_ids vs) (\<lambda>r. Inr (i # r)))
       else release_ids vs)"

text \<open>\<^verbatim>\<open>MinecraftVersionAPI.get_vanilla_versions\<close>\<close>

definition get_vanilla_versions :: "MinecraftVersionAPI \<Rightarrow> network \<Rightarrow> (py_exc + json) \<times> network" where
  "get_vanilla_versions self nw =
     (case getattr (attr_MOJANG_MANIFEST_URL self) of
        Inl e \<Rightarrow> (except_Exception (Inl e) (JList []), nw)
      | Inr url \<Rightarrow>
          (case requests_get_json url nw of
             (r, nw1) \<Rightarrow>
               (except_Exception
                  (bind_exc r (\<lambda>data.
                     bind_exc (subscript data ''versions'') (\<lambda>versions.
                       bind_exc (py_iter versions) (\<lambda>vs.
                         bind_exc (release_ids vs) (\<lambda>ids. Inr (JList ids))))))
                  (JList []),
                nw1)))"

definition is_failure :: "http_reply \<Rightarrow> bool" where
  "is_failure r = (case r of Body j \<Rightarrow> False | _ \<Rightarrow> True)"

text \<open>A network on which every request fails to connect.\<close>

definition dead_network :: network where
  "dead_network = \<lparr>replies = (\<lambda>n url. ConnectionFailed), requests = []\<rparr>"

subsection \<open>\<^verbatim>\<open>utils/api.py\<close>: \<^verbatim>\<open>MinecraftVersionAPI\<close>, the vanilla resolver\<close>

text \<open>
  \<^verbatim>\<open>packaging.version\<close> is a library outside the repository: the functions below take
  its \<^verbatim>\<open>parse\<close> (which raises \<^verbatim>\<open>InvalidVersion\<close> on some strings) and the order of
  the parsed versions as a parameter. Parsed versions are compared with \<open>=\<close>.
\<close>

record 'v packaging =
  parse :: "string \<Rightarrow> py_exc + 'v"
  version_less :: "'v \<Rightarrow> 'v \<Rightarrow> bool"

text \<open>\<^verbatim>\<open>version.parse(x)\<close> for a JSON value \<open>x\<close>: only strings can be parsed.\<close>

definition parse_value :: "'v packaging \<Rightarrow> json \<Rightarrow> py_exc + 'v" where
  "parse_value pk x = (case x of JStr s \<Rightarrow> parse pk s | _ \<Rightarrow> Inl TypeError)"

text \<open>\<^verbatim>\<open>requests.get(x)\<close> followed by the status check and \<^verbatim>\<open>json()\<close>, for a JSON value
  \<open>x\<close> as URL: anything but a string is rejected before a request is made.\<close>

definition requests_get_value :: "json \<Rightarrow> network \<Rightarrow> (py_exc + json) \<times> network" where
  "requests_get_value x nw = (case x of JStr url \<Rightarrow> requests_get_json url nw | _ \<Rightarrow> (Inl RequestError, nw))"

text \<open>
  The loop of \<^verbatim>\<open>get_version_info\<close> over the release entries of the manifest, up to the
  \<^verbatim>\<open>return\<close> that ends it. The result carries the dictionary \<^verbatim>\<open>_version_cache\<close>.
\<close>

fun find_release ::
  "'v packaging \<Rightarrow> string \<Rightarrow> 'v \<Rightarrow> json list \<Rightarrow> (string \<times> json) list \<Rightarrow> network
     \<Rightarrow> (py_exc + json) \<times> (string \<times> json) list \<times> network"
where
  "find_release pk version_str target_version [] vc nw = (Inr JNull, vc, nw)"
| "find_release pk version_str target_version (version_info # rest) vc nw =
     (case subscript version_info ''type'' of
        Inl e \<Rightarrow> (Inl e, vc, nw)
      | Inr t \<Rightarrow>
          if t \<noteq> JStr ''release'' then find_release pk version_str target_version rest vc nw
          else
            (case bind_exc (subscript version_info ''id'') (parse_value pk) of
               Inl e \<Rightarrow> (Inl e, vc, nw)
             | Inr v \<Rightarrow>
                 if v \<noteq> target_version then find_release pk version_str target_version rest vc nw
                 else
                   (case subscript version_info ''url'' of
                      Inl e \<Rightarrow> (Inl e, vc, nw)
                    | Inr u \<Rightarrow>
                        (case requests_get_value u nw of
                           (Inl e, nw1) \<Rightarrow> (Inl e, vc, nw1)
                         | (Inr detail_data, nw1) \<Rightarrow>
                             (Inr detail_data, (version_str, detail_data) # vc, nw1)))))"

text \<open>
  \<^verbatim>\<open>MinecraftVersionAPI.get_version_info\<close> (the override in \<^verbatim>\<open>api.py\<close>). Its first
  statement reads \<^verbatim>\<open>self._version_cache\<close>; the whole body is inside
  \<^verbatim>\<open>try ... except Exception: return None\<close>.
\<close>

definition get_version_info ::
  "MinecraftVersionAPI \<Rightarrow> 'v packaging \<Rightarrow> string \<Rightarrow> network
     \<Rightarrow> (py_exc + json) \<times> MinecraftVersionAPI \<times> network"
where
  "get_version_info self pk version_str nw =
     (case getattr (attr_version_cache self) of
        Inl e \<Rightarrow> (except_Exception (Inl e) JNull, self, nw)
      | Inr vc \<Rightarrow>
          (case map_of vc version_str of
             Some v \<Rightarrow> (Inr v, self, nw)
           | None \<Rightarrow>
               (case getattr (attr_MOJANG_MANIFEST_URL self) of
                  Inl e \<Rightarrow> (except_Exception (Inl e) JNull, self, nw)
                | Inr url \<Rightarrow>
                    (case requests_get_json url nw of
                       (r, nw1) \<Rightarrow>
                         (case bind_exc r (\<lambda>j. bind_exc (subscript j ''versions'') (\<lambda>versions.
                                 bind_exc (parse pk version_str) (\<lambda>target_version.
                                   bind_exc (py_iter versions) (\<lambda>vs. Inr (target_version, vs))))) of
                            Inl e \<Rightarrow> (except_Exception (Inl e) JNull, self, nw1)
                          | Inr (target_version, vs) \<Rightarrow>
                              (case find_release pk version_str target_version vs vc nw1 of
                                 (r2, vc2, nw2) \<Rightarrow>
                                   (except_Exception r2 JNull,
                                    self\<lparr>attr_version_cache := Some vc2\<rparr>, nw2)))))))"

text \<open>\<^verbatim>\<open>MinecraftVersionAPI.get_server_jar_url\<close>\<close>

definition server_url_of :: "json \<Rightarrow> py_exc + json" where
  "server_url_of version_info =
     (if \<not> truthy version_info then Inr JNull
      else bind_exc (contains ''downloads'' version_info) (\<lambda>has_downloads.
        if \<not> has_downloads then Inr JNull
        else bind_exc (subscript version_info ''downloads'') (\<lambda>downloads.
          bind_exc (contains ''server'' downloads) (\<lambda>has_server.
            if \<not> has_server then Inr JNull
            else bind_exc (subscript downloads ''server'') (\<lambda>server. subscript server ''url'')))))"

definition get_server_jar_url ::
  "MinecraftVersionAPI \<Rightarrow> 'v packaging \<Rightarrow> string \<Rightarrow> network
     \<Rightarrow> (py_exc + json) \<times> MinecraftVersionAPI \<times> network"
where
  "get_server_jar_url self pk minecraft_version nw =
     (case get_version_info self pk minecraft_version nw of
        (Inl e, self1, nw1) \<Rightarrow> (Inl e, self1, nw1)
      | (Inr version_info, self1, nw1) \<Rightarrow> (server_url_of version_info, self1, nw1))"

text \<open>
  \<^verbatim>\<open>MinecraftVersionAPI._fetch_version_info\<close>. Its parameter is called \<^verbatim>\<open>version\<close>
  and hides the module of that name, so \<^verbatim>\<open>version.parse(version)\<close> looks for an
  attribute \<^verbatim>\<open>parse\<close> of a string and raises \<^verbatim>\<open>AttributeError\<close>; the statements
  after it are never reached.
\<close>

definition fetch_version_info :: "string \<Rightarrow> network \<Rightarrow> (py_exc + json) \<times> network" where
  "fetch_version_info version nw =
     (case get_json MOJANG_MANIFEST_URL nw of
        (r, nw1) \<Rightarrow>
          (except_Exception
             (bind_exc r (\<lambda>manifest. bind_exc (subscript manifest ''versions'') (\<lambda>versions.
                Inl AttributeError)))
             JNull,
           nw1))"

text \<open>
  For evaluations: \<^verbatim>\<open>packaging.version\<close> on plain dotted release numbers such as
  \<^verbatim>\<open>1.20.4\<close>. A version is its list of numbers without trailing zeros, so that
  \<^verbatim>\<open>1.20\<close> equals \<^verbatim>\<open>1.20.0\<close>; the order is the lexicographic one.
\<close>

definition digit_value :: "char \<Rightarrow> nat option" where
  "digit_value c =
     (let n = (of_char c :: nat)
      in if 48 \<le> n \<and> n \<le> 57 then Some (n - 48) else None)"

fun number_of :: "nat \<Rightarrow> string \<Rightarrow> nat option" where
  "number_of acc [] = Some acc"
| "number_of acc (c # cs) =
     (case digit_value c of None \<Rightarrow> None | Some d \<Rightarrow> number_of (10 * acc + d) cs)"

fun split_dots :: "string \<Rightarrow> string \<Rightarrow> string list" where
  "split_dots cur [] = [rev cur]"
| "split_dots cur (c # cs) =
     (if c = CHR ''.'' then rev cur # split_dots [] cs else split_dots (c # cur) cs)"

fun numbers_of :: "string list \<Rightarrow> nat list option" where
  "numbers_of [] = Some []"
| "numbers_of (p # ps) =
     (if p = [] then None
      else case number_of 0 p of
             None \<Rightarrow> None
           | Some n \<Rightarrow> (case numbers_of ps of None \<Rightarrow> None | Some ns \<Rightarrow> Some (n # ns)))"

definition strip_zeros :: "nat list \<Rightarrow> nat list" where
  "strip_zeros ns = rev (dropWhile (\<lambda>n. n = 0) (rev ns))"

fun release_less :: "nat list \<Rightarrow> nat list \<Rightarrow> bool" where
  "release_less [] [] = False"
| "release_less [] (y # ys) = True"
| "release_less (x # xs) [] = False"
| "release_less (x # xs) (y # ys) = (x < y \<or> (x = y \<and> release_less xs ys))"

definition dotted_versions :: "nat list packaging" where
  "dotted_versions =
     \<lparr>parse = (\<lambda>s. case numbers_of (split_dots [] s) of
                     None \<Rightarrow> Inl InvalidVersion
                   | Some ns \<Rightarrow> Inr (strip_zeros ns)),
      version_less = release_less\<rparr>"

text \<open>
  A network that serves a manifest with the releases \<^verbatim>\<open>1.21\<close> and \<^verbatim>\<open>1.20.4\<close> and the
  detail document of \<^verbatim>\<open>1.20.4\<close>.
\<close>

definition example_detail :: json where
  "example_detail =
     JObj [(''id'', JStr ''1.20.4''),
           (''downloads'', JObj [(''server'',
              JObj [(''url'', JStr ''https://piston-data.mojang.com/v1/objects/8dd1a28/server.jar'')])]),
           (''javaVersion'', JObj [(''majorVersion'', JInt 17)])]"

definition example_manifest :: json where
  "example_manifest =
     JObj [(''versions'', JList
       [JObj [(''id'', JStr ''24w14a''), (''type'', JStr ''snapshot''),
              (''url'', JStr ''https://piston-meta.mojang.com/v1/packages/24w14a.json'')],
        JObj [(''id'', JStr ''1.21''), (''type'', JStr ''release''),
              (''url'', JStr ''https://piston-meta.mojang.com/v1/packages/1.21.json'')],
        JObj [(''id'', JStr ''1.20.4''), (''type'', JStr ''release''),
              (''url'', JStr ''https://piston-meta.mojang.com/v1/packages/1.20.4.json'')]])]"

definition mojang_network :: network where
  "mojang_network =
     \<lparr>replies = (\<lambda>n url.
         if url = MOJANG_MANIFEST_URL then Body example_manifest
         else if url = ''https://piston-meta.mojang.com/v1/packages/1.20.4.json''
         then Body example_detail
         else BadStatus),
      requests = []\<rparr>"

subsection \<open>\<^verbatim>\<open>utils/system.py\<close>: \<^verbatim>\<open>SecurePathValidator\<close>\<close>

text \<open>
  An absolute path is the list of its components; the root is the empty list.
  \<open>path_str\<close> is \<^verbatim>\<open>str(path)\<close>.
\<close>

type_synonym path = "string list"

definition path_str :: "path \<Rightarrow> string" where
  "path_str p = (if p = [] then ''/'' else concat (map (\<lambda>c. ''/'' @ c) p))"

definition is_alnum :: "char \<Rightarrow> bool" where
  "is_alnum c =
     (let n = (of_char c :: nat)
      in (48 \<le> n \<and> n \<le> 57) \<or> (65 \<le> n \<and> n \<le> 90) \<or> (97 \<le> n \<and> n \<le> 122))"

text \<open>The class \<^verbatim>\<open>[a-zA-Z0-9._-]\<close>; on such characters it is also the class
  \<^verbatim>\<open>[\w._-]\<close> of \<^verbatim>\<open>sanitize_path_component\<close>.\<close>

definition name_char :: "char \<Rightarrow> bool" where
  "name_char c = (is_alnum c \<or> c = CHR ''.'' \<or> c = CHR ''_'' \<or> c = CHR ''-'')"

definition newline :: char where
  "newline = CHR 0x0A"

text \<open>
  \<^verbatim>\<open>re.match(r'^[a-zA-Z0-9._-]+$', name)\<close>. In Python \<^verbatim>\<open>$\<close> also matches just
  before a newline that ends the string.
\<close>

definition matches_name_pattern :: "string \<Rightarrow> bool" where
  "matches_name_pattern name =
     (let body = (if name \<noteq> [] \<and> last name = newline then butlast name else name)
      in body \<noteq> [] \<and> list_all name_char body)"

definition to_upper :: "char \<Rightarrow> char" where
  "to_upper c =
     (let n = (of_char c :: nat)
      in if 97 \<le> n \<and> n \<le> 122 then char_of (n - 32) else c)"

definition RESERVED_NAMES :: "string list" where
  "RESERVED_NAMES =
     [''CON'', ''PRN'', ''AUX'', ''NUL'', ''COM1'', ''COM2'', ''COM3'', ''COM4'', ''COM5'',
      ''COM6'', ''COM7'', ''COM8'', ''COM9'', ''LPT1'', ''LPT2'', ''LPT3'', ''LPT4'',
      ''LPT5'', ''LPT6'', ''LPT7'', ''LPT8'', ''LPT9'']"

definition validate_server_name :: "string \<Rightarrow> bool" where
  "validate_server_name name =
     (if name = [] then False
      else if \<not> matches_name_pattern name then False
      else if hd name = CHR ''.'' \<or> name = ''.'' \<or> name = ''..'' then False
      else if map to_upper name \<in> set RESERVED_NAMES then False
      else if 100 < length name then False
      else True)"

definition sanitize_path_component :: "string \<Rightarrow> py_exc + string" where
  "sanitize_path_component component =
     (if \<not> validate_server_name component then Inl PathValidationError
      else let sanitized = filter name_char component
           in if sanitized = [] then Inl PathValidationError else Inr sanitized)"

text \<open>
  What the operating system contributes besides the directory tree: the home directory
  and \<^verbatim>\<open>Path.resolve()\<close>, which follows symbolic links and removes relative
  segments, or raises.
\<close>

record os_env =
  home :: path
  resolve :: "path \<Rightarrow> py_exc + path"

text \<open>\<^verbatim>\<open>except (OSError, ValueError) as e: raise PathValidationError\<close>\<close>

definition as_path_error :: "py_exc \<Rightarrow> py_exc" where
  "as_path_error e = (if e = OSError \<or> e = ValueError then PathValidationError else e)"

text \<open>
  \<^verbatim>\<open>validate_and_resolve_path\<close>. The test is
  \<^verbatim>\<open>str(resolved_path).startswith(str(resolved_parent))\<close>, a prefix of strings.
\<close>

definition validate_and_resolve_path :: "os_env \<Rightarrow> path \<Rightarrow> path \<Rightarrow> py_exc + path" where
  "validate_and_resolve_path env p allowed_parent =
     (case resolve env p of
        Inl e \<Rightarrow> Inl (as_path_error e)
      | Inr resolved_path \<Rightarrow>
          (case resolve env allowed_parent of
             Inl e \<Rightarrow> Inl (as_path_error e)
           | Inr resolved_parent \<Rightarrow>
               if \<not> prefix (path_str resolved_parent) (path_str resolved_path)
               then Inl PathValidationError
               else Inr resolved_path))"

text \<open>
  The directory tree: the entries below the root, each a file or a directory with its
  mode; the newest entry of a path counts. The root is a directory.
\<close>

datatype node = File | Dir nat

type_synonym filesystem = "(path \<times> node) list"

definition node_at :: "filesystem \<Rightarrow> path \<Rightarrow> node option" where
  "node_at fs p = (if p = [] then Some (Dir 493) else map_of fs p)"

definition is_dir :: "filesystem \<Rightarrow> path \<Rightarrow> bool" where
  "is_dir fs p = (case node_at fs p of Some (Dir m) \<Rightarrow> True | _ \<Rightarrow> False)"

text \<open>\<^verbatim>\<open>path.iterdir()\<close>: the entries directly below \<open>p\<close>.\<close>

definition iterdir :: "filesystem \<Rightarrow> path \<Rightarrow> path list" where
  "iterdir fs p = filter (\<lambda>q. q \<noteq> [] \<and> butlast q = p) (map fst fs)"

text \<open>
  \<^verbatim>\<open>Path.mkdir(parents=True, exist_ok=True, mode=mode)\<close> on the reversed path: an
  existing directory is left alone, an existing file or a file among the ancestors
  raises, missing ancestors are created with the default mode \<^verbatim>\<open>0o777\<close> first.
\<close>

fun mkdir_parents :: "string list \<Rightarrow> nat \<Rightarrow> filesystem \<Rightarrow> py_exc + filesystem" where
  "mkdir_parents [] mode fs = Inr fs"
| "mkdir_parents (name # rparent) mode fs =
     (case node_at fs (rev (name # rparent)) of
        Some (Dir m) \<Rightarrow> Inr fs
      | Some File \<Rightarrow> Inl OSError
      | None \<Rightarrow>
          (case node_at fs (rev rparent) of
             Some (Dir m) \<Rightarrow> Inr ((rev (name # rparent), Dir mode) # fs)
           | Some File \<Rightarrow> Inl OSError
           | None \<Rightarrow>
               (case mkdir_parents rparent 511 fs of
                  Inl e \<Rightarrow> Inl e
                | Inr fs1 \<Rightarrow> Inr ((rev (name # rparent), Dir mode) # fs1))))"

definition mkdir :: "path \<Rightarrow> nat \<Rightarrow> filesystem \<Rightarrow> py_exc + filesystem" where
  "mkdir p mode fs = mkdir_parents (rev p) mode fs"

text \<open>
  \<^verbatim>\<open>create_safe_directory\<close>. Its loop over \<^verbatim>\<open>path.parts\<close> calls
  \<^verbatim>\<open>validate_server_name\<close> and drops the result, so it decides nothing.
\<close>

definition create_safe_directory ::
  "path \<Rightarrow> nat \<Rightarrow> filesystem \<Rightarrow> (py_exc + path) \<times> filesystem"
where
  "create_safe_directory p mode fs =
     (case mkdir p mode fs of
        Inl e \<Rightarrow> (Inl (if e = OSError then PathValidationError else e), fs)
      | Inr fs1 \<Rightarrow>
          if \<not> is_dir fs1 p then (Inl PathValidationError, fs1) else (Inr p, fs1))"

subsection \<open>\<^verbatim>\<open>utils/system.py\<close>: \<^verbatim>\<open>PathManager\<close>\<close>

definition get_servers_directory :: "os_env \<Rightarrow> filesystem \<Rightarrow> (py_exc + path) \<times> filesystem" where
  "get_servers_directory env fs = create_safe_directory (home env @ [''minecraft_servers'']) 493 fs"

text \<open>\<^verbatim>\<open>str(n)\<close> for an integer.\<close>

definition digit_char :: "nat \<Rightarrow> char" where
  "digit_char d = char_of (48 + d)"

function str_nat :: "nat \<Rightarrow> string" where
  "str_nat n = (if n < 10 then [digit_char n] else str_nat (n div 10) @ [digit_char (n mod 10)])"
  by pat_completeness auto
termination
  by (relation "measure (\<lambda>n. n)") auto

definition str_int :: "int \<Rightarrow> string" where
  "str_int i = (if i < 0 then ''-'' @ str_nat (nat (- i)) else str_nat (nat i))"

definition server_dir_name :: "string \<Rightarrow> string \<Rightarrow> int \<Rightarrow> string" where
  "server_dir_name safe_server_type safe_version instance =
     (if instance = 0 then safe_server_type @ ''-'' @ safe_version
      else safe_server_type @ ''-'' @ safe_version @ ''-'' @ str_int instance)"

definition get_server_directory ::
  "os_env \<Rightarrow> string \<Rightarrow> string \<Rightarrow> int \<Rightarrow> filesystem \<Rightarrow> (py_exc + path) \<times> filesystem"
where
  "get_server_directory env server_type version instance fs =
     (if \<not> validate_server_name server_type then (Inl PathValidationError, fs)
      else if \<not> validate_server_name version then (Inl PathValidationError, fs)
      else if instance < 0 \<or> 999 < instance then (Inl PathValidationError, fs)
      else
        (case get_servers_directory env fs of
           (Inl e, fs1) \<Rightarrow> (Inl e, fs1)
         | (Inr base_dir, fs1) \<Rightarrow>
             (case sanitize_path_component server_type of
                Inl e \<Rightarrow> (Inl e, fs1)
              | Inr safe_server_type \<Rightarrow>
                  (case sanitize_path_component version of
                     Inl e \<Rightarrow> (Inl e, fs1)
                   | Inr safe_version \<Rightarrow>
                       (case validate_and_resolve_path env
                               (base_dir @ [server_dir_name safe_server_type safe_version instance])
                               base_dir of
                          Inl e \<Rightarrow> (Inl e, fs1)
                        | Inr validated_path \<Rightarrow> create_safe_directory validated_path 493 fs1)))))"

text \<open>
  The loop of \<^verbatim>\<open>find_available_server_directory\<close>, from \<open>instance\<close> on. Only
  \<^verbatim>\<open>PathValidationError\<close> is caught inside the loop.
\<close>

function find_from ::
  "os_env \<Rightarrow> string \<Rightarrow> string \<Rightarrow> int \<Rightarrow> filesystem \<Rightarrow> (py_exc + path) \<times> filesystem"
where
  "find_from env server_type version instance fs =
     (if instance < 1000 then
        (case get_server_directory env server_type version instance fs of
           (Inr server_dir, fs1) \<Rightarrow>
             if iterdir fs1 server_dir = [] then (Inr server_dir, fs1)
             else find_from env server_type version (instance + 1) fs1
         | (Inl e, fs1) \<Rightarrow>
             if e = PathValidationError then find_from env server_type version (instance + 1) fs1
             else (Inl e, fs1))
      else (Inl PathValidationError, fs))"
  by pat_completeness auto
termination
  by (relation "measure (\<lambda>(env, server_type, version, instance, fs). nat (1000 - instance))") auto

definition find_available_server_directory ::
  "os_env \<Rightarrow> string \<Rightarrow> string \<Rightarrow> filesystem \<Rightarrow> (py_exc + path) \<times> filesystem"
where
  "find_available_server_directory env server_type version fs = find_from env server_type version 0 fs"

text \<open>\<^verbatim>\<open>validate_install_directory\<close>: the allowed parent is the parent of the servers
  directory, the home directory.\<close>

definition validate_install_directory ::
  "os_env \<Rightarrow> path option \<Rightarrow> filesystem \<Rightarrow> (py_exc + path option) \<times> filesystem"
where
  "validate_install_directory env install_dir fs =
     (case install_dir of
        None \<Rightarrow> (Inr None, fs)
      | Some d \<Rightarrow>
          (case get_servers_directory env fs of
             (Inl e, fs1) \<Rightarrow> (Inl e, fs1)
           | (Inr servers_dir, fs1) \<Rightarrow>
               (case validate_and_resolve_path env d (butlast servers_dir) of
                  Inl e \<Rightarrow> (Inl e, fs1)
                | Inr validated_path \<Rightarrow>
                    (case create_safe_directory validated_path 493 fs1 of
                       (Inl e, fs2) \<Rightarrow> (Inl e, fs2)
                     | (Inr p, fs2) \<Rightarrow> (Inr (Some p), fs2)))))"

text \<open>
  An operating system without symbolic links, asked about absolute paths without
  relative segments: \<^verbatim>\<open>resolve\<close> changes nothing. The home directory is
  \<^verbatim>\<open>/home/bob\<close>.
\<close>

definition plain_env :: os_env where
  "plain_env = \<lparr>home = [''home'', ''bob''], resolve = (\<lambda>p. Inr p)\<rparr>"





text \<open>
  A tree where \<^verbatim>\<open>~/minecraft_servers/paper-1.21\<close> holds a server already, and an
  operating system where that directory is a symbolic link to
  \<^verbatim>\<open>~/minecraft_servers_old/paper\<close>.
\<close>

definition example_tree :: filesystem where
  "example_tree =
     [([''home'', ''bob'', ''minecraft_servers'', ''paper-1.21'', ''server.jar''], File),
      ([''home'', ''bob'', ''minecraft_servers'', ''paper-1.21''], Dir 493),
      ([''home'', ''bob'', ''minecraft_servers''], Dir 493),
      ([''home'', ''bob''], Dir 493),
      ([''home''], Dir 493)]"

definition symlink_env :: os_env where
  "symlink_env =
     \<lparr>home = [''home'', ''bob''],
      resolve = (\<lambda>p. if p = [''home'', ''bob'', ''minecraft_servers'', ''paper-1.21'']
                      then Inr [''home'', ''bob'', ''minecraft_servers_old'', ''paper'']
                      else Inr p)\<rparr>"

subsection \<open>\<^verbatim>\<open>utils/base_api.py\<close>: \<^verbatim>\<open>BaseDownloadClient.download_file\<close>\<close>

type_synonym byte = "8 word"

text \<open>
  What the server and the disk contribute to one download: whether the connection
  could be opened, whether the status is a success, the \<^verbatim>\<open>content-length\<close> header,
  the chunks that \<^verbatim>\<open>aiter_bytes\<close> yields, whether the stream breaks after the
  last of them, whether the destination can be opened, and how many bytes the disk takes.
\<close>

datatype content_length_header = NoHeader | HeaderInt int | HeaderMalformed

record download_env =
  connect_ok :: bool
  status_ok :: bool
  content_length :: content_length_header
  chunks :: "byte list list"
  stream_breaks :: bool
  open_ok :: bool
  disk_capacity :: nat

text \<open>
  The local variables of the loop and its visible effects: the bytes written so far, the
  counter \<^verbatim>\<open>downloaded\<close>, and the calls \<^verbatim>\<open>progress_callback(downloaded, total_size)\<close>
  made so far, oldest first.
\<close>

record download_state =
  file_bytes :: "byte list"
  downloaded :: int
  callback_calls :: "(int \<times> int) list"

text \<open>\<^verbatim>\<open>int(response.headers.get("content-length", 0))\<close>\<close>

definition total_size_of :: "content_length_header \<Rightarrow> py_exc + int" where
  "total_size_of h =
     (case h of NoHeader \<Rightarrow> Inr 0 | HeaderInt n \<Rightarrow> Inr n | HeaderMalformed \<Rightarrow> Inl ValueError)"

text \<open>
  The body of \<^verbatim>\<open>async for chunk in response.aiter_bytes(...)\<close>: write, count, report.
  A write beyond the capacity of the disk raises \<^verbatim>\<open>IOError\<close> (an alias of
  \<^verbatim>\<open>OSError\<close>) and leaves the loop.
\<close>

fun write_chunks ::
  "nat \<Rightarrow> bool \<Rightarrow> int \<Rightarrow> byte list list \<Rightarrow> download_state \<Rightarrow> py_exc option \<times> download_state"
where
  "write_chunks cap has_cb total_size [] st = (None, st)"
| "write_chunks cap has_cb total_size (chunk # rest) st =
     (if cap < length (file_bytes st) + length chunk then (Some OSError, st)
      else
        let st1 = st\<lparr>file_bytes := file_bytes st @ chunk\<rparr>;
            st2 = st1\<lparr>downloaded := downloaded st1 + int (length chunk)\<rparr>;
            st3 = (if has_cb \<and> 0 < total_size
                   then st2\<lparr>callback_calls := callback_calls st2 @ [(downloaded st2, total_size)]\<rparr>
                   else st2)
        in write_chunks cap has_cb total_size rest st3)"

definition initial_download_state :: download_state where
  "initial_download_state = \<lparr>file_bytes = [], downloaded = 0, callback_calls = []\<rparr>"

text \<open>
  \<^verbatim>\<open>download_file\<close>. The result is the returned value or the raised exception, the
  content of the destination file (\<open>None\<close> when it was never opened) and the calls
  of the callback. \<^verbatim>\<open>httpx.RequestError\<close> and \<^verbatim>\<open>IOError\<close> are turned into
  \<^verbatim>\<open>DownloadError\<close>; a status error and a malformed header are not caught.
\<close>

definition download_file ::
  "download_env \<Rightarrow> bool \<Rightarrow> (py_exc + bool) \<times> byte list option \<times> (int \<times> int) list"
where
  "download_file env has_cb =
     (if \<not> connect_ok env then (Inl DownloadError, None, [])
      else if \<not> status_ok env then (Inl HTTPStatusError, None, [])
      else case total_size_of (content_length env) of
        Inl e \<Rightarrow> (Inl e, None, [])
      | Inr total_size \<Rightarrow>
          if \<not> open_ok env then (Inl DownloadError, None, [])
          else
            (case write_chunks (disk_capacity env) has_cb total_size (chunks env)
                    initial_download_state of
               (Some e, st) \<Rightarrow> (Inl DownloadError, Some (file_bytes st), callback_calls st)
             | (None, st) \<Rightarrow>
                 if stream_breaks env
                 then (Inl DownloadError, Some (file_bytes st), callback_calls st)
                 else (Inr True, Some (file_bytes st), callback_calls st)))"

text \<open>The running sums of the chunk lengths, starting from \<open>acc\<close>.\<close>

fun running_sums :: "int \<Rightarrow> byte list list \<Rightarrow> int list" where
  "running_sums acc [] = []"
| "running_sums acc (c # cs) = (acc + int (length c)) # running_sums (acc + int (length c)) cs"

text \<open>
  A download of 1000 bytes that arrive in four chunks of 250, from a server that
  declares \<^verbatim>\<open>content-length: 1000\<close>.
\<close>

definition example_download :: download_env where
  "example_download =
     \<lparr>connect_ok = True, status_ok = True, content_length = HeaderInt 1000,
      chunks = [replicate 250 0, replicate 250 0, replicate 250 0, replicate 250 0], stream_breaks = False, open_ok = True,
      disk_capacity = 4096\<rparr>"

subsection \<open>\<^verbatim>\<open>constants.py\<close>: limits and version lists\<close>

definition MIN_RAM_MB :: int where "MIN_RAM_MB = 512"

definition MAX_RAM_MB :: int where "MAX_RAM_MB = 32768"

definition MIN_PORT :: int where "MIN_PORT = 1024"

definition MAX_PORT :: int where "MAX_PORT = 65535"

definition DEFAULT_MINECRAFT_VERSIONS :: "string list" where
  "DEFAULT_MINECRAFT_VERSIONS =
     [''1.7.2'', ''1.7.4'', ''1.7.5'', ''1.7.6'', ''1.7.7'', ''1.7.8'', ''1.7.9'', ''1.7.10'',
      ''1.8'', ''1.8.1'', ''1.8.2'', ''1.8.3'', ''1.8.4'', ''1.8.5'', ''1.8.6'', ''1.8.7'', ''1.8.8'', ''1.8.9'',
      ''1.9'', ''1.9.1'', ''1.9.2'', ''1.9.3'', ''1.9.4'',
      ''1.10'', ''1.10.1'', ''1.10.2'',
      ''1.11'', ''1.11.1'', ''1.11.2'',
      ''1.12'', ''1.12.1'', ''1.12.2'',
      ''1.13'', ''1.13.1'', ''1.13.2'',
      ''1.14'', ''1.14.1'', ''1.14.2'', ''1.14.3'', ''1.14.4'',
      ''1.15'', ''1.15.1'', ''1.15.2'',
      ''1.16'', ''1.16.1'', ''1.16.2'', ''1.16.3'', ''1.16.4'', ''1.16.5'',
      ''1.17'', ''1.17.1'',
      ''1.18'', ''1.18.1'', ''1.18.2'',
      ''1.19'', ''1.19.1'', ''1.19.2'', ''1.19.3'', ''1.19.4'',
      ''1.20'', ''1.20.1'', ''1.20.2'', ''1.20.3'', ''1.20.4'', ''1.20.5'', ''1.20.6'',
      ''1.21'', ''1.21.1'', ''1.21.2'', ''1.21.3'', ''1.21.4'', ''1.21.5'', ''1.21.6'', ''1.21.7'', ''1.21.8'']"

definition FORGE_SUPPORTED_VERSIONS :: "string list" where
  "FORGE_SUPPORTED_VERSIONS =
     [''1.7.10'',
      ''1.8'', ''1.8.9'',
      ''1.9'', ''1.9.4'',
      ''1.10'', ''1.10.2'',
      ''1.11'', ''1.11.2'',
      ''1.12'', ''1.12.1'', ''1.12.2'',
      ''1.13'', ''1.13.2'',
      ''1.14'', ''1.14.1'', ''1.14.2'', ''1.14.3'', ''1.14.4'',
      ''1.15'', ''1.15.1'', ''1.15.2'',
      ''1.16'', ''1.16.1'', ''1.16.2'', ''1.16.3'', ''1.16.4'', ''1.16.5'',
      ''1.17'', ''1.17.1'',
      ''1.18'', ''1.18.1'', ''1.18.2'',
      ''1.19'', ''1.19.1'', ''1.19.2'', ''1.19.3'', ''1.19.4'',
      ''1.20'', ''1.20.1'', ''1.20.2'', ''1.20.3'', ''1.20.4'', ''1.20.5'', ''1.20.6'',
      ''1.21'', ''1.21.1'', ''1.21.2'', ''1.21.3'', ''1.21.4'', ''1.21.5'', ''1.21.6'', ''1.21.7'', ''1.21.8'']"

definition SPIGOT_SUPPORTED_VERSIONS :: "string list" where
  "SPIGOT_SUPPORTED_VERSIONS =
     [''1.8'', ''1.8.3'', ''1.8.7'', ''1.8.8'',
      ''1.9'', ''1.9.2'', ''1.9.4'',
      ''1.10'', ''1.10.2'',
      ''1.11'', ''1.11.2'',
      ''1.12'', ''1.12.1'', ''1.12.2'',
      ''1.13'', ''1.13.1'', ''1.13.2'',
      ''1.14'', ''1.14.1'', ''1.14.2'', ''1.14.3'', ''1.14.4'',
      ''1.15'', ''1.15.1'', ''1.15.2'',
      ''1.16'', ''1.16.1'', ''1.16.2'', ''1.16.3'', ''1.16.4'', ''1.16.5'',
      ''1.17'', ''1.17.1'',
      ''1.18'', ''1.18.1'', ''1.18.2'',
      ''1.19'', ''1.19.1'', ''1.19.2'', ''1.19.3'', ''1.19.4'',
      ''1.20'', ''1.20.1'', ''1.20.2'', ''1.20.3'', ''1.20.4'', ''1.20.5'', ''1.20.6'',
      ''1.21'', ''1.21.1'', ''1.21.2'', ''1.21.3'', ''1.21.4'', ''1.21.5'', ''1.21.6'', ''1.21.7'', ''1.21.8'']"

subsection \<open>\<^verbatim>\<open>utils/api.py\<close>: \<^verbatim>\<open>MinecraftVersionAPI\<close>, the Paper and Leaf calls\<close>

text \<open>
  The four coroutines send their request through \<^verbatim>\<open>self._client\<close> to a URL made from
  \<^verbatim>\<open>self.PAPER_API_URL\<close> or \<^verbatim>\<open>self.LEAF_API_URL\<close>, inside
  \<^verbatim>\<open>try ... except Exception: return []\<close>.
\<close>

definition project_call ::
  "unit option \<Rightarrow> string option \<Rightarrow> string \<Rightarrow> string \<Rightarrow> network \<Rightarrow> (py_exc + json) \<times> network"
where
  "project_call client api_url endpoint key nw =
     (case bind_exc (getattr client) (\<lambda>c. getattr api_url) of
        Inl e \<Rightarrow> (except_Exception (Inl e) (JList []), nw)
      | Inr url \<Rightarrow>
          (case requests_get_json (url @ endpoint) nw of
             (r, nw1) \<Rightarrow>
               (except_Exception (bind_exc r (\<lambda>data. dict_get data key (JList []))) (JList []),
                nw1)))"

definition get_paper_versions :: "MinecraftVersionAPI \<Rightarrow> network \<Rightarrow> (py_exc + json) \<times> network" where
  "get_paper_versions self nw =
     project_call (attr_client self) (attr_PAPER_API_URL self) ''/projects/paper'' ''versions'' nw"

definition get_paper_builds ::
  "MinecraftVersionAPI \<Rightarrow> string \<Rightarrow> network \<Rightarrow> (py_exc + json) \<times> network"
where
  "get_paper_builds self minecraft_version nw =
     project_call (attr_client self) (attr_PAPER_API_URL self)
       (''/projects/paper/versions/'' @ minecraft_version) ''builds'' nw"

definition get_leaf_versions :: "MinecraftVersionAPI \<Rightarrow> network \<Rightarrow> (py_exc + json) \<times> network" where
  "get_leaf_versions self nw =
     project_call (attr_client self) (attr_LEAF_API_URL self) ''/projects/leaf'' ''versions'' nw"

definition get_leaf_builds ::
  "MinecraftVersionAPI \<Rightarrow> string \<Rightarrow> network \<Rightarrow> (py_exc + json) \<times> network"
where
  "get_leaf_builds self minecraft_version nw =
     project_call (attr_client self) (attr_LEAF_API_URL self)
       (''/projects/leaf/versions/'' @ minecraft_version) ''builds'' nw"

subsection \<open>\<^verbatim>\<open>servers/\<close>: construction and the version check\<close>

text \<open>
  A server object. \<open>install_directory_attr\<close> is \<^verbatim>\<open>_install_directory\<close>, \<open>api\<close> is
  \<^verbatim>\<open>_api\<close>, \<open>download_manager\<close> is \<^verbatim>\<open>_download_manager\<close>; \<open>build\<close> is the
  attribute of Paper and Leaf servers, \<open>JNull\<close> for \<^verbatim>\<open>None\<close>. \<open>cached_versions\<close> is
  \<open>None\<close> as long as the object has no attribute \<^verbatim>\<open>_cached_versions\<close>.
\<close>

datatype server_kind = Vanilla | Paper | Leaf | Spigot | Forge

record server =
  kind :: server_kind
  version_attr :: string
  ram_allocation :: int
  server_port :: int
  install_directory_attr :: "path option"
  api :: "MinecraftVersionAPI option"
  download_manager :: "unit option"
  build :: json
  cached_versions :: "json option"

definition server_type_of :: "server_kind \<Rightarrow> string" where
  "server_type_of k =
     (case k of Vanilla \<Rightarrow> ''vanilla'' | Paper \<Rightarrow> ''paper'' | Leaf \<Rightarrow> ''leaf''
      | Spigot \<Rightarrow> ''spigot'' | Forge \<Rightarrow> ''forge'')"

text \<open>\<^verbatim>\<open>str.strip()\<close>: the characters below 256 that Python counts as whitespace.\<close>

definition is_space :: "char \<Rightarrow> bool" where
  "is_space c = ((of_char c :: nat) \<in> {9, 10, 11, 12, 13, 28, 29, 30, 31, 32, 133, 160})"

definition strip :: "string \<Rightarrow> string" where
  "strip s = rev (dropWhile is_space (rev (dropWhile is_space s)))"

text \<open>
  \<^verbatim>\<open>BaseServer.__init__\<close>. The custom install directory is validated, and with it
  created, before the subclass checks the version.
\<close>

definition BaseServer_init ::
  "os_env \<Rightarrow> server_kind \<Rightarrow> string \<Rightarrow> int \<Rightarrow> int \<Rightarrow> path option \<Rightarrow> filesystem
     \<Rightarrow> (py_exc + server) \<times> filesystem"
where
  "BaseServer_init env k version_arg ram port install_directory fs =
     (if strip version_arg = [] then (Inl ValidationError, fs)
      else if ram < MIN_RAM_MB \<or> MAX_RAM_MB < ram then (Inl ValidationError, fs)
      else if port < MIN_PORT \<or> MAX_PORT < port then (Inl ValidationError, fs)
      else
        (case validate_install_directory env install_directory fs of
           (Inl e, fs1) \<Rightarrow> (Inl (if e = PathValidationError then ValidationError else e), fs1)
         | (Inr d, fs1) \<Rightarrow>
             (Inr \<lparr>kind = k, version_attr = strip version_arg, ram_allocation = ram, server_port = port,
                   install_directory_attr = d, api = None, download_manager = None,
                   build = JNull, cached_versions = None\<rparr>,
              fs1)))"

text \<open>The arguments that pass the three checks at the head of \<^verbatim>\<open>BaseServer.__init__\<close>.\<close>

definition valid_arguments :: "string \<Rightarrow> int \<Rightarrow> int \<Rightarrow> bool" where
  "valid_arguments version_arg ram port =
     (strip version_arg \<noteq> [] \<and> MIN_RAM_MB \<le> ram \<and> ram \<le> MAX_RAM_MB \<and>
      MIN_PORT \<le> port \<and> port \<le> MAX_PORT)"

text \<open>
  What \<^verbatim>\<open>asyncio\<close> finds when \<^verbatim>\<open>supported_versions\<close> is read: no event loop
  (\<^verbatim>\<open>get_event_loop\<close> raises \<^verbatim>\<open>RuntimeError\<close>, \<^verbatim>\<open>asyncio.run\<close> works), an idle
  loop, or a running loop (\<^verbatim>\<open>run_until_complete\<close> and \<^verbatim>\<open>asyncio.run\<close> raise
  \<^verbatim>\<open>RuntimeError\<close>).
\<close>

datatype event_loop = NoLoop | Idle | Running

definition get_event_loop :: "event_loop \<Rightarrow> py_exc + unit" where
  "get_event_loop loop = (case loop of NoLoop \<Rightarrow> Inl RuntimeError | _ \<Rightarrow> Inr ())"

definition run_until_complete ::
  "event_loop \<Rightarrow> (network \<Rightarrow> (py_exc + json) \<times> network) \<Rightarrow> network \<Rightarrow> (py_exc + json) \<times> network"
where
  "run_until_complete loop coroutine nw =
     (case loop of Running \<Rightarrow> (Inl RuntimeError, nw) | _ \<Rightarrow> coroutine nw)"

definition asyncio_run ::
  "event_loop \<Rightarrow> (network \<Rightarrow> (py_exc + json) \<times> network) \<Rightarrow> network \<Rightarrow> (py_exc + json) \<times> network"
where
  "asyncio_run loop coroutine nw =
     (case loop of Running \<Rightarrow> (Inl RuntimeError, nw) | _ \<Rightarrow> coroutine nw)"

text \<open>\<^verbatim>\<open>self._api.method(...)\<close>: the coroutine, or \<^verbatim>\<open>AttributeError\<close> when
  \<^verbatim>\<open>_api\<close> is \<^verbatim>\<open>None\<close>.\<close>

definition api_coroutine ::
  "MinecraftVersionAPI option \<Rightarrow> (MinecraftVersionAPI \<Rightarrow> network \<Rightarrow> (py_exc + json) \<times> network)
     \<Rightarrow> py_exc + (network \<Rightarrow> (py_exc + json) \<times> network)"
where
  "api_coroutine a method = (case a of None \<Rightarrow> Inl AttributeError | Some obj \<Rightarrow> Inr (method obj))"

text \<open>
  The statement that Paper and Leaf share:
  \<^verbatim>\<open>try: loop = asyncio.get_event_loop(); v = loop.run_until_complete(self._api.m())\<close>
  \<^verbatim>\<open>except RuntimeError: v = asyncio.run(self._api.m())\<close>.
\<close>

definition versions_from_api ::
  "event_loop \<Rightarrow> MinecraftVersionAPI option
     \<Rightarrow> (MinecraftVersionAPI \<Rightarrow> network \<Rightarrow> (py_exc + json) \<times> network)
     \<Rightarrow> network \<Rightarrow> (py_exc + json) \<times> network"
where
  "versions_from_api loop a method nw =
     (case (case get_event_loop loop of
              Inl e \<Rightarrow> (Inl e, nw)
            | Inr u \<Rightarrow>
                (case api_coroutine a method of
                   Inl e \<Rightarrow> (Inl e, nw)
                 | Inr coroutine \<Rightarrow> run_until_complete loop coroutine nw)) of
        (Inr v, nw1) \<Rightarrow> (Inr v, nw1)
      | (Inl e, nw1) \<Rightarrow>
          if e = RuntimeError then
            (case api_coroutine a method of
               Inl e2 \<Rightarrow> (Inl e2, nw1)
             | Inr coroutine \<Rightarrow> asyncio_run loop coroutine nw1)
          else (Inl e, nw1))"

definition json_strings :: "string list \<Rightarrow> json" where
  "json_strings xs = JList (map JStr xs)"

text \<open>The fallback of Leaf: \<^verbatim>\<open>v.startswith(('1.19.', '1.20.', '1.21.'))\<close>.\<close>

definition leaf_fallback :: "string list" where
  "leaf_fallback =
     filter (\<lambda>v. prefix ''1.19.'' v \<or> prefix ''1.20.'' v \<or> prefix ''1.21.'' v)
       DEFAULT_MINECRAFT_VERSIONS"

text \<open>The property \<^verbatim>\<open>supported_versions\<close> of the five classes.\<close>

definition supported_versions ::
  "event_loop \<Rightarrow> server \<Rightarrow> network \<Rightarrow> (py_exc + json) \<times> server \<times> network"
where
  "supported_versions loop self nw =
     (case kind self of
        Spigot \<Rightarrow> (Inr (json_strings SPIGOT_SUPPORTED_VERSIONS), self, nw)
      | Forge \<Rightarrow> (Inr (json_strings FORGE_SUPPORTED_VERSIONS), self, nw)
      | Vanilla \<Rightarrow>
          (case cached_versions self of
             Some vs \<Rightarrow> (Inr vs, self, nw)
           | None \<Rightarrow>
               (case api self of
                  None \<Rightarrow>
                    (Inr (json_strings DEFAULT_MINECRAFT_VERSIONS),
                     self\<lparr>cached_versions := Some (json_strings DEFAULT_MINECRAFT_VERSIONS)\<rparr>, nw)
                | Some a \<Rightarrow>
                    (case get_vanilla_versions a nw of
                       (Inl e, nw1) \<Rightarrow> (Inl e, self, nw1)
                     | (Inr vs, nw1) \<Rightarrow>
                         (let vs1 = (if \<not> truthy vs then json_strings DEFAULT_MINECRAFT_VERSIONS
                                     else vs)
                          in (Inr vs1, self\<lparr>cached_versions := Some vs1\<rparr>, nw1)))))
      | Paper \<Rightarrow>
          (case cached_versions self of
             Some vs \<Rightarrow> (Inr vs, self, nw)
           | None \<Rightarrow>
               (case versions_from_api loop (api self) get_paper_versions nw of
                  (Inl e, nw1) \<Rightarrow> (Inl e, self, nw1)
                | (Inr vs, nw1) \<Rightarrow> (Inr vs, self\<lparr>cached_versions := Some vs\<rparr>, nw1)))
      | Leaf \<Rightarrow>
          (case cached_versions self of
             Some vs \<Rightarrow> (Inr vs, self, nw)
           | None \<Rightarrow>
               (case versions_from_api loop (api self) get_leaf_versions nw of
                  (Inl e, nw1) \<Rightarrow> (Inl e, self, nw1)
                | (Inr vs, nw1) \<Rightarrow>
                    (let vs1 = (if \<not> truthy vs then json_strings leaf_fallback else vs)
                     in (Inr vs1, self\<lparr>cached_versions := Some vs1\<rparr>, nw1)))))"

text \<open>\<^verbatim>\<open>BaseServer.is_version_supported\<close> and \<^verbatim>\<open>_validate_version_support\<close>\<close>

definition is_version_supported ::
  "event_loop \<Rightarrow> server \<Rightarrow> string \<Rightarrow> network \<Rightarrow> (py_exc + bool) \<times> server \<times> network"
where
  "is_version_supported loop self v nw =
     (case supported_versions loop self nw of
        (Inl e, self1, nw1) \<Rightarrow> (Inl e, self1, nw1)
      | (Inr vs, self1, nw1) \<Rightarrow> (contains v vs, self1, nw1))"

definition validate_version_support ::
  "event_loop \<Rightarrow> server \<Rightarrow> network \<Rightarrow> (py_exc + server) \<times> network"
where
  "validate_version_support loop self nw =
     (case is_version_supported loop self (version_attr self) nw of
        (Inl e, self1, nw1) \<Rightarrow> (Inl e, nw1)
      | (Inr ok, self1, nw1) \<Rightarrow>
          if \<not> ok then (Inl UnsupportedVersionError, nw1) else (Inr self1, nw1))"

text \<open>
  The constructors: \<^verbatim>\<open>super().__init__(version, **kwargs)\<close>, for Paper and Leaf
  \<^verbatim>\<open>self.build = build\<close>, then \<^verbatim>\<open>self._validate_version_support()\<close>. (The
  attribute \<^verbatim>\<open>forge_version\<close> of Forge servers is left out.)
\<close>

definition Server_init ::
  "event_loop \<Rightarrow> os_env \<Rightarrow> server_kind \<Rightarrow> string \<Rightarrow> json \<Rightarrow> int \<Rightarrow> int \<Rightarrow> path option
     \<Rightarrow> filesystem \<Rightarrow> network \<Rightarrow> (py_exc + server) \<times> filesystem \<times> network"
where
  "Server_init loop env k version_arg build_arg ram port install_directory fs nw =
     (case BaseServer_init env k version_arg ram port install_directory fs of
        (Inl e, fs1) \<Rightarrow> (Inl e, fs1, nw)
      | (Inr self, fs1) \<Rightarrow>
          (case validate_version_support loop (self\<lparr>build := build_arg\<rparr>) nw of
             (r, nw1) \<Rightarrow> (r, fs1, nw1)))"




definition PaperServer_init ::
  "event_loop \<Rightarrow> os_env \<Rightarrow> string \<Rightarrow> json \<Rightarrow> int \<Rightarrow> int \<Rightarrow> path option
     \<Rightarrow> filesystem \<Rightarrow> network \<Rightarrow> (py_exc + server) \<times> filesystem \<times> network"
where
  "PaperServer_init loop env version_arg build_arg =
     Server_init loop env Paper version_arg build_arg"


text \<open>\<^verbatim>\<open>BaseServer.__aenter__\<close>\<close>

definition aenter :: "server \<Rightarrow> server" where
  "aenter self = self\<lparr>api := Some MinecraftVersionAPI_init, download_manager := Some ()\<rparr>"


subsection \<open>\<^verbatim>\<open>servers/paper.py\<close> and \<^verbatim>\<open>servers/leaf.py\<close>: build selection\<close>







text \<open>
  \<^verbatim>\<open>get_available_builds\<close>, \<^verbatim>\<open>get_latest_build\<close> and
  \<^verbatim>\<open>ensure_build_selected\<close> read the same in both classes, but for the method of
  \<^verbatim>\<open>self._api\<close> that lists the builds (and the text of the log records, which are
  left out): \<open>api_method\<close> is \<open>get_paper_builds\<close> or \<open>get_leaf_builds\<close>.
\<close>

definition get_available_builds ::
  "(MinecraftVersionAPI \<Rightarrow> string \<Rightarrow> network \<Rightarrow> (py_exc + json) \<times> network)
     \<Rightarrow> server \<Rightarrow> network \<Rightarrow> (py_exc + json) \<times> network"
where
  "get_available_builds api_method self nw =
     (case api self of
        None \<Rightarrow> (Inl AttributeError, nw)
      | Some a \<Rightarrow> api_method a (version_attr self) nw)"















subsection \<open>\<^verbatim>\<open>servers/base.py\<close>: \<^verbatim>\<open>BaseServer.install\<close>\<close>

text \<open>
  A step either returns a truth value or raises an exception \<open>e\<close>, given with
  \<^verbatim>\<open>str(e)\<close>. The property \<^verbatim>\<open>install_directory\<close> returns the directory, raises
  \<^verbatim>\<open>ServerInstallationError\<close> with a message (when allocation fails with a
  \<^verbatim>\<open>PathValidationError\<close>) or lets another exception through.
\<close>

datatype step_outcome = Returns bool | Raises py_exc string

datatype directory_outcome =
    Directory string
  | DirectoryInstallationError string
  | DirectoryOtherError py_exc string

text \<open>
  The methods of the server object that \<^verbatim>\<open>install\<close> calls. Each one acts on the
  world \<open>'w\<close> (disk, network, processes), which the pipeline never touches itself.
\<close>

record 'w server_methods =
  server_type_name :: string
  version_name :: string
  install_directory :: "'w \<Rightarrow> directory_outcome \<times> 'w"
  ensure_java_step :: "'w \<Rightarrow> step_outcome \<times> 'w"
  download_jar_step :: "'w \<Rightarrow> step_outcome \<times> 'w"
  create_properties_step :: "'w \<Rightarrow> step_outcome \<times> 'w"
  create_script_step :: "'w \<Rightarrow> step_outcome \<times> 'w"
  create_eula_step :: "'w \<Rightarrow> step_outcome \<times> 'w"

record 'w run_state =
  world :: 'w
  log_records :: log

definition log_to :: "log_level \<Rightarrow> string \<Rightarrow> 'w run_state \<Rightarrow> 'w run_state" where
  "log_to lvl msg st = st\<lparr>log_records := log_records st @ [(lvl, msg)]\<rparr>"

text \<open>The list \<^verbatim>\<open>install_steps\<close> of \<^verbatim>\<open>install\<close>.\<close>

definition install_steps :: "'w server_methods \<Rightarrow> (string \<times> ('w \<Rightarrow> step_outcome \<times> 'w)) list" where
  "install_steps self =
     [(''Java installation'', ensure_java_step self),
      (''Server jar download'', download_jar_step self),
      (''Server properties creation'', create_properties_step self),
      (''Start script creation'', create_script_step self),
      (''EULA file creation'', create_eula_step self)]"

definition starting_msg :: "string \<Rightarrow> string" where
  "starting_msg step_name = ''Starting step: '' @ step_name"

definition completed_msg :: "string \<Rightarrow> string" where
  "completed_msg step_name = ''Completed step: '' @ step_name"

definition step_failed_msg :: "string \<Rightarrow> string" where
  "step_failed_msg step_name = ''Installation failed at step '' @ apostrophe @ step_name @ apostrophe"

definition step_error_msg :: "string \<Rightarrow> string \<Rightarrow> string" where
  "step_error_msg step_name cause = step_failed_msg step_name @ '': '' @ cause"

text \<open>
  The loop \<^verbatim>\<open>for step_name, step_func in install_steps\<close>. A step that returns a false
  value makes the body raise \<^verbatim>\<open>ServerInstallationError\<close> inside its own
  \<^verbatim>\<open>try\<close>, so the handler \<^verbatim>\<open>except Exception as e\<close> receives it and raises a
  second one \<^verbatim>\<open>from\<close> it; both messages are logged. The handler is
  \<^verbatim>\<open>except Exception\<close>: an exception outside \<^verbatim>\<open>Exception\<close> leaves the loop, and
  \<^verbatim>\<open>install\<close>, as it is.
\<close>

fun run_steps ::
  "(string \<times> ('w \<Rightarrow> step_outcome \<times> 'w)) list \<Rightarrow> 'w run_state \<Rightarrow> (py_exc + unit) \<times> 'w run_state"
where
  "run_steps [] st = (Inr (), st)"
| "run_steps ((step_name, step_func) # rest) st =
     (let st1 = log_to DEBUG (starting_msg step_name) st;
          (outcome, w) = step_func (world st1);
          st2 = st1\<lparr>world := w\<rparr>
      in case outcome of
           Returns True \<Rightarrow>
             run_steps rest (log_to DEBUG (completed_msg step_name) st2)
         | Returns False \<Rightarrow>
             (let st3 = log_to ERROR (step_failed_msg step_name) st2;
                  e = ServerInstallationError (step_failed_msg step_name) None;
                  error_msg = step_error_msg step_name (step_failed_msg step_name)
              in (Inl (ServerInstallationError error_msg (Some e)), log_to ERROR error_msg st3))
         | Raises e cause \<Rightarrow>
             if is_Exception e
             then (let error_msg = step_error_msg step_name cause
                   in (Inl (ServerInstallationError error_msg (Some e)), log_to ERROR error_msg st2))
             else (Inl e, st2))"

definition installing_msg :: "'w server_methods \<Rightarrow> string \<Rightarrow> string" where
  "installing_msg self d =
     ''Installing '' @ server_type_name self @ '' '' @ version_name self @ '' to '' @ d"

definition installed_msg :: "'w server_methods \<Rightarrow> string" where
  "installed_msg self =
     ''Successfully installed '' @ server_type_name self @ '' '' @ version_name self"

definition unexpected_msg :: "string \<Rightarrow> string" where
  "unexpected_msg cause = ''Unexpected error during server installation: '' @ cause"

text \<open>
  \<^verbatim>\<open>install\<close>. Its outer handlers re-raise a \<^verbatim>\<open>ServerInstallationError\<close> as it is
  and wrap any other \<^verbatim>\<open>Exception\<close>.
\<close>

definition install :: "'w server_methods \<Rightarrow> 'w run_state \<Rightarrow> (py_exc + bool) \<times> 'w run_state" where
  "install self st =
     (case install_directory self (world st) of
        (DirectoryInstallationError msg, w) \<Rightarrow>
          (Inl (ServerInstallationError msg None), st\<lparr>world := w\<rparr>)
      | (DirectoryOtherError e cause, w) \<Rightarrow>
          if is_Exception e
          then (let error_msg = unexpected_msg cause
                in (Inl (ServerInstallationError error_msg (Some e)),
                    log_to ERROR error_msg (st\<lparr>world := w\<rparr>)))
          else (Inl e, st\<lparr>world := w\<rparr>)
      | (Directory d, w) \<Rightarrow>
          (let st1 = log_to INFO (installing_msg self d) (st\<lparr>world := w\<rparr>)
           in case run_steps (install_steps self) st1 of
                (Inl e, st2) \<Rightarrow> (Inl e, st2)
              | (Inr u, st2) \<Rightarrow>
                  (Inr True, log_to INFO (installed_msg self) st2)))"

text \<open>
  For the statement of the pipeline's behaviour: the world after the first \<open>n\<close> steps
  of a list have run one after the other, and the outcome of step \<open>n\<close> in that world.
\<close>

fun world_after :: "(string \<times> ('w \<Rightarrow> step_outcome \<times> 'w)) list \<Rightarrow> nat \<Rightarrow> 'w \<Rightarrow> 'w" where
  "world_after steps 0 w = w"
| "world_after [] (Suc n) w = w"
| "world_after ((step_name, step_func) # rest) (Suc n) w = world_after rest n (snd (step_func w))"

definition outcome_at :: "(string \<times> ('w \<Rightarrow> step_outcome \<times> 'w)) list \<Rightarrow> nat \<Rightarrow> 'w \<Rightarrow> step_outcome" where
  "outcome_at steps n w = fst (snd (steps ! n) (world_after steps n w))"

text \<open>The names of the steps that were started, read off the log.\<close>

definition started_steps :: "log \<Rightarrow> string list" where
  "started_steps lg =
     map (\<lambda>(lvl, msg). drop (length ''Starting step: '') msg)
       (filter (\<lambda>(lvl, msg). lvl = DEBUG \<and> take (length ''Starting step: '') msg = ''Starting step: '') lg)"

text \<open>
  A server whose world is the list of the effects performed so far: Java is found, the
  download raises, and the three writers would succeed.
\<close>

definition example_methods :: "string list server_methods" where
  "example_methods =
     \<lparr>server_type_name = ''paper'', version_name = ''1.21'',
      install_directory = (\<lambda>w. (Directory ''/home/u/minecraft_servers/paper-1.21'', w @ [''mkdir''])),
      ensure_java_step = (\<lambda>w. (Returns True, w @ [''java''])),
      download_jar_step = (\<lambda>w. (Raises DownloadError ''connection reset'', w @ [''partial jar''])),
      create_properties_step = (\<lambda>w. (Returns True, w @ [''server.properties''])),
      create_script_step = (\<lambda>w. (Returns True, w @ [''start.sh''])),
      create_eula_step = (\<lambda>w. (Returns True, w @ [''eula.txt'']))\<rparr>"

text \<open>The same server when the task is cancelled while the download is awaited.\<close>

definition cancelled_methods :: "string list server_methods" where
  "cancelled_methods =
     example_methods\<lparr>download_jar_step := (\<lambda>w. (Raises CancelledError [], w @ [''partial jar'']))\<rparr>"

section \<open>The response cache\<close>

lemma get_cached_or_fetch_failure:
  assumes "cache cache_key = None" and "fetch_func nw = (Inl e, nw1)" and "is_Exception e"
  shows "get_cached_or_fetch cache_key fetch_func cache nw = (Inr JNull, cache, nw1)"
  using assms by (simp add: get_cached_or_fetch_def)

lemma get_cached_or_fetch_success:
  assumes "cache cache_key = None" and "fetch_func nw = (Inr v, nw1)"
  shows "get_cached_or_fetch cache_key fetch_func cache nw = (Inr v, cache(cache_key \<mapsto> v), nw1)"
  using assms by (simp add: get_cached_or_fetch_def)

lemma get_cached_or_fetch_hit:
  assumes "cache cache_key = Some v"
  shows "get_cached_or_fetch cache_key fetch_func cache nw = (Inr v, cache, nw)"
  using assms by (simp add: get_cached_or_fetch_def)

lemma PaperAPI_fetch_version_info_never_raises:
  "fst (PaperAPI_fetch_version_info version nw) =
     Inr (case next_reply nw (build_url (rstrip_slash PAPER_API_URL) (''projects/paper/versions/'' @ version)) of
            Body j \<Rightarrow> j | _ \<Rightarrow> JNull)"
  by (cases "next_reply nw (build_url (rstrip_slash PAPER_API_URL) (''projects/paper/versions/'' @ version))")
     (simp_all add: PaperAPI_fetch_version_info_def get_json_def requests_get_json_def http_get_def
        except_Exception_def)

text \<open>
  Whenever the request fails, \<^verbatim>\<open>get_version_info\<close> stores \<^verbatim>\<open>None\<close> under the key,
  and from then on answers \<^verbatim>\<open>None\<close> on every network without touching it.
\<close>

lemma PaperAPI_get_version_info_caches_None:
  assumes "cache (''version_info_'' @ version) = None"
    and "is_failure (next_reply nw (build_url (rstrip_slash PAPER_API_URL) (''projects/paper/versions/'' @ version)))"
  shows "\<exists>nw1. PaperAPI_get_version_info version cache nw =
           (Inr JNull, cache(''version_info_'' @ version \<mapsto> JNull), nw1) \<and>
         (\<forall>nw2. PaperAPI_get_version_info version (cache(''version_info_'' @ version \<mapsto> JNull)) nw2 =
           (Inr JNull, cache(''version_info_'' @ version \<mapsto> JNull), nw2))"
proof -
  obtain r nw1 where f: "PaperAPI_fetch_version_info version nw = (r, nw1)"
    by (cases "PaperAPI_fetch_version_info version nw")
  from PaperAPI_fetch_version_info_never_raises [of version nw] assms(2) f
  have "r = Inr JNull"
    by (cases "next_reply nw (build_url (rstrip_slash PAPER_API_URL) (''projects/paper/versions/'' @ version))")
       (simp_all add: is_failure_def)
  with f assms(1) show ?thesis
    by (simp add: PaperAPI_get_version_info_def get_cached_or_fetch_def)
qed

text \<open>
  Claim C2, at a failing input. \<^verbatim>\<open>get_cached_or_fetch\<close> leaves the cache alone when the
  fetch function raises (lemma \<open>get_cached_or_fetch_failure\<close>), but
  \<^verbatim>\<open>PaperAPI._fetch_version_info\<close> turns every failure of the request into the value
  \<^verbatim>\<open>None\<close>, which is stored. On a network whose first request fails and whose later
  requests succeed, the first \<^verbatim>\<open>get_version_info("1.21")\<close> returns \<^verbatim>\<open>None\<close> and
  stores it under \<^verbatim>\<open>version_info_1.21\<close>; the second call returns \<^verbatim>\<open>None\<close> again
  and sends no request, although the request would now succeed.
\<close>

theorem get_version_info_caches_failed_fetch:
  "(case PaperAPI_get_version_info ''1.21'' Map.empty flaky_network of
      (r1, cache1, nw1) \<Rightarrow>
        r1 = Inr JNull \<and> cache1 ''version_info_1.21'' = Some JNull \<and>
        length (requests nw1) = 1 \<and>
        next_reply nw1 (build_url (rstrip_slash PAPER_API_URL) ''projects/paper/versions/1.21'') =
          Body (JObj [(''version'', JStr ''1.21''), (''builds'', JList [JInt 1, JInt 2])]) \<and>
        (case PaperAPI_get_version_info ''1.21'' cache1 nw1 of
           (r2, cache2, nw2) \<Rightarrow> r2 = Inr JNull \<and> requests nw2 = requests nw1))"
  by (simp add: PaperAPI_get_version_info_def get_cached_or_fetch_def PaperAPI_fetch_version_info_def
        get_json_def requests_get_json_def http_get_def next_reply_def flaky_network_def
        except_Exception_def)

section \<open>The vanilla resolver\<close>

text \<open>For every version and every network the constructed object answers \<^verbatim>\<open>None\<close>.\<close>

lemma get_server_jar_url_as_constructed:
  "get_server_jar_url MinecraftVersionAPI_init pk minecraft_version nw =
     (Inr JNull, MinecraftVersionAPI_init, nw)"
  by (simp add: get_server_jar_url_def get_version_info_def MinecraftVersionAPI_init_def
        getattr_def except_Exception_def server_url_of_def truthy_def)

text \<open>
  Were the two attributes there, the same request would follow the manifest to the
  detail document and return its server URL.
\<close>

lemma get_server_jar_url_with_attributes:
  "fst (get_server_jar_url
          (MinecraftVersionAPI_init\<lparr>attr_version_cache := Some [],
             attr_MOJANG_MANIFEST_URL := Some MOJANG_MANIFEST_URL\<rparr>)
          dotted_versions ''1.20.4'' mojang_network) =
     Inr (JStr ''https://piston-data.mojang.com/v1/objects/8dd1a28/server.jar'')"
  by code_simp

text \<open>
  Claim C3, at a failing input. The manifest lists \<^verbatim>\<open>1.20.4\<close> as a release and its
  detail document has \<^verbatim>\<open>downloads.server.url\<close>, yet \<^verbatim>\<open>get_server_jar_url("1.20.4")\<close>
  returns \<^verbatim>\<open>None\<close> without a single request: \<^verbatim>\<open>get_version_info\<close> reads
  \<^verbatim>\<open>self._version_cache\<close>, which no constructor sets, and its handler turns the
  \<^verbatim>\<open>AttributeError\<close> into \<^verbatim>\<open>None\<close>. \<^verbatim>\<open>_fetch_version_info\<close> returns
  \<^verbatim>\<open>None\<close> as well.
\<close>

theorem get_server_jar_url_returns_None:
  "server_url_of example_detail =
     Inr (JStr ''https://piston-data.mojang.com/v1/objects/8dd1a28/server.jar'') \<and>
   next_reply mojang_network MOJANG_MANIFEST_URL = Body example_manifest \<and>
   next_reply mojang_network ''https://piston-meta.mojang.com/v1/packages/1.20.4.json'' =
     Body example_detail \<and>
   fst (get_server_jar_url MinecraftVersionAPI_init dotted_versions ''1.20.4'' mojang_network) =
     Inr JNull \<and>
   requests (snd (snd (get_server_jar_url MinecraftVersionAPI_init dotted_versions ''1.20.4''
                         mojang_network))) = [] \<and>
   fst (fetch_version_info ''1.20.4'' mojang_network) = Inr JNull"
  by code_simp

section \<open>Paths and directory allocation\<close>

declare find_from.simps [simp del]

subsection \<open>\<^verbatim>\<open>mkdir\<close> with parents\<close>

lemma node_at_Cons:
  "p \<noteq> [] \<Longrightarrow> node_at ((p, n) # fs) q = (if q = p then Some n else node_at fs q)"
  by (auto simp: node_at_def)

lemma is_dir_iff: "is_dir fs p \<longleftrightarrow> (\<exists>m. node_at fs p = Some (Dir m))"
  by (auto simp: is_dir_def split: option.splits node.splits)


lemma mkdir_parents_is_dir:
  "mkdir_parents rp mode fs = Inr fs' \<Longrightarrow> is_dir fs' (rev rp)"
proof (induction rp arbitrary: mode fs')
  case Nil
  then show ?case by (simp add: is_dir_def node_at_def)
next
  case (Cons name rparent)
  show ?case
  proof (cases "node_at fs (rev (name # rparent))")
    case (Some n)
    with Cons.prems show ?thesis by (cases n) (auto simp: is_dir_iff)
  next
    case None
    note leaf = None
    show ?thesis
    proof (cases "node_at fs (rev rparent)")
      case (Some n)
      with Cons.prems leaf show ?thesis
        by (cases n) (auto simp: node_at_Cons is_dir_iff)
    next
      case None
      with Cons.prems leaf obtain fs1 where
        p: "mkdir_parents rparent 511 fs = Inr fs1" and
        f: "fs' = (rev (name # rparent), Dir mode) # fs1"
        by (auto split: sum.splits)
      then show ?thesis
        by (auto simp: node_at_Cons is_dir_iff)
    qed
  qed
qed

lemma mkdir_parents_creates:
  "mkdir_parents rp mode fs = Inr fs' \<Longrightarrow> node_at fs (rev rp) = None \<Longrightarrow>
     node_at fs' (rev rp) = Some (Dir mode)"
proof (cases rp)
  case Nil
  assume "node_at fs (rev rp) = None"
  with Nil show ?thesis by (simp add: node_at_def)
next
  case (Cons name rparent)
  assume a: "mkdir_parents rp mode fs = Inr fs'" and b: "node_at fs (rev rp) = None"
  then show ?thesis unfolding Cons
    by (auto simp: node_at_Cons split: option.splits node.splits sum.splits)
qed






lemma mkdir_parents_error:
  "mkdir_parents rp mode fs = Inl e \<Longrightarrow> e = OSError"
  by (induction rp arbitrary: mode) (auto split: option.splits node.splits sum.splits)

subsection \<open>\<^verbatim>\<open>create_safe_directory\<close> and \<^verbatim>\<open>get_server_directory\<close>\<close>




lemma create_safe_directory_cases:
  "create_safe_directory p mode fs = (r, fs') \<Longrightarrow>
     (r = Inl PathValidationError \<and> fs' = fs) \<or> (r = Inr p \<and> mkdir p mode fs = Inr fs')"
  using mkdir_parents_is_dir [of "rev p" mode fs] mkdir_parents_error [of "rev p" mode fs]
  by (auto simp: create_safe_directory_def mkdir_def split: sum.splits if_splits)












subsection \<open>The loop of \<^verbatim>\<open>find_available_server_directory\<close>\<close>




















subsection \<open>The containment test\<close>

text \<open>
  What \<^verbatim>\<open>validate_and_resolve_path\<close> guarantees of a path it returns is a prefix
  of strings; a path below the parent, component by component, is always accepted.
\<close>

lemma validate_and_resolve_path_guarantee:
  assumes "validate_and_resolve_path env p allowed_parent = Inr r"
  shows "\<exists>rp. resolve env p = Inr r \<and> resolve env allowed_parent = Inr rp \<and>
              prefix (path_str rp) (path_str r)"
  using assms
  by (auto simp: validate_and_resolve_path_def split: sum.splits if_splits)

lemma validate_and_resolve_path_descendant:
  assumes "resolve env p = Inr r" and "resolve env allowed_parent = Inr rp" and "prefix rp r"
  shows "validate_and_resolve_path env p allowed_parent = Inr r"
proof -
  from assms(3) obtain zs where r: "r = rp @ zs" by (auto simp: prefix_def)
  have "prefix (path_str rp) (path_str (rp @ zs))"
  proof (cases "rp = []")
    case True
    then show ?thesis by (cases zs) (simp_all add: path_str_def)
  next
    case False
    then show ?thesis by (simp add: path_str_def)
  qed
  with assms(1,2) r show ?thesis by (simp add: validate_and_resolve_path_def)
qed

text \<open>
  Claim C1, at two failing inputs. The test in \<^verbatim>\<open>validate_and_resolve_path\<close> is
  \<^verbatim>\<open>str(resolved_path).startswith(str(resolved_parent))\<close>, a comparison of strings,
  so a sibling whose name continues the name of the root passes. With the home directory
  \<^verbatim>\<open>/home/bob\<close> the path \<^verbatim>\<open>/home/bobby/x\<close> is returned, not refused, and
  \<^verbatim>\<open>validate_install_directory\<close> creates it. And where
  \<^verbatim>\<open>~/minecraft_servers/paper-1.21\<close> is a symbolic link to
  \<^verbatim>\<open>~/minecraft_servers_old/paper\<close>, allocation for the valid names
  \<^verbatim>\<open>paper\<close> and \<^verbatim>\<open>1.21\<close> returns that directory, which is not below
  \<^verbatim>\<open>~/minecraft_servers\<close>.
\<close>

theorem validate_and_resolve_path_accepts_outside:
  "resolve plain_env [''home'', ''bobby'', ''x''] = Inr [''home'', ''bobby'', ''x''] \<and>
   resolve plain_env [''home'', ''bob''] = Inr [''home'', ''bob''] \<and>
   \<not> prefix [''home'', ''bob''] [''home'', ''bobby'', ''x''] \<and>
   validate_and_resolve_path plain_env [''home'', ''bobby'', ''x''] [''home'', ''bob''] =
     Inr [''home'', ''bobby'', ''x''] \<and>
   fst (validate_install_directory plain_env (Some [''home'', ''bobby'', ''x'']) example_tree) =
     Inr (Some [''home'', ''bobby'', ''x'']) \<and>
   is_dir (snd (validate_install_directory plain_env (Some [''home'', ''bobby'', ''x'']) example_tree))
     [''home'', ''bobby'', ''x''] \<and>
   validate_server_name ''paper'' \<and> validate_server_name ''1.21'' \<and>
   resolve symlink_env [''home'', ''bob'', ''minecraft_servers''] =
     Inr [''home'', ''bob'', ''minecraft_servers''] \<and>
   resolve symlink_env [''home'', ''bob'', ''minecraft_servers'', ''paper-1.21''] =
     Inr [''home'', ''bob'', ''minecraft_servers_old'', ''paper''] \<and>
   \<not> prefix [''home'', ''bob'', ''minecraft_servers'']
        [''home'', ''bob'', ''minecraft_servers_old'', ''paper''] \<and>
   fst (find_available_server_directory symlink_env ''paper'' ''1.21'' []) =
     Inr [''home'', ''bob'', ''minecraft_servers_old'', ''paper'']"
  by code_simp

section \<open>Version and build lists of the resolvers\<close>

lemma except_Exception_total:
  "(\<And>e. body = Inl e \<Longrightarrow> is_Exception e) \<Longrightarrow> \<exists>j. except_Exception body d = Inr j"
  by (cases body) (auto simp: except_Exception_def)

lemma except_Exception_failed:
  "body = Inl e \<Longrightarrow> is_Exception e \<Longrightarrow> except_Exception body d = Inr d"
  by (simp add: except_Exception_def)

lemma get_json_result:
  "fst (get_json url nw) = (if is_failure (next_reply nw url) then Inl APIError
                            else Inr (case next_reply nw url of Body j \<Rightarrow> j))"
  by (cases "next_reply nw url")
     (simp_all add: get_json_def requests_get_json_def http_get_def is_failure_def)

lemma requests_get_json_result:
  "is_failure (next_reply nw url) \<Longrightarrow>
     \<exists>e. fst (requests_get_json url nw) = Inl e \<and> is_Exception e"
  by (cases "next_reply nw url")
     (simp_all add: requests_get_json_def http_get_def is_failure_def)

lemma requests_get_json_exc:
  "fst (requests_get_json url nw) = Inl e \<Longrightarrow> is_Exception e"
  by (cases "next_reply nw url")
     (auto simp: requests_get_json_def http_get_def)

lemma dict_get_exc: "dict_get d k dflt = Inl e \<Longrightarrow> e = AttributeError"
  by (cases d) (auto simp: dict_get_def split: option.splits)

lemma subscript_exc: "subscript d k = Inl e \<Longrightarrow> is_Exception e"
  by (cases d) (auto simp: subscript_def split: option.splits)

lemma py_iter_exc: "py_iter d = Inl e \<Longrightarrow> is_Exception e"
  by (cases d) (auto simp: py_iter_def)

lemma bind_exc_Inl:
  "bind_exc m f = Inl e \<Longrightarrow> m = Inl e \<or> (\<exists>v. m = Inr v \<and> f v = Inl e)"
  by (cases m) (auto simp: bind_exc_def)

lemma release_ids_exc: "release_ids vs = Inl e \<Longrightarrow> is_Exception e"
proof (induction vs)
  case Nil
  then show ?case by simp
next
  case (Cons v vs)
  then show ?case
    by (auto dest!: bind_exc_Inl dest: subscript_exc split: if_splits)
qed

lemma project_list_total:
  "\<exists>j. except_Exception (bind_exc (fst (get_json url nw)) (\<lambda>data. dict_get data k (JList []))) (JList [])
        = Inr j"
proof (rule except_Exception_total)
  fix e
  assume "bind_exc (fst (get_json url nw)) (\<lambda>data. dict_get data k (JList [])) = Inl e"
  then have "e = APIError \<or> e = AttributeError"
    by (auto dest!: bind_exc_Inl dest: dict_get_exc simp: get_json_result split: if_splits)
  then show "is_Exception e" by auto
qed

lemma project_list_failed:
  "is_failure (next_reply nw url) \<Longrightarrow>
   except_Exception (bind_exc (fst (get_json url nw)) (\<lambda>data. dict_get data k (JList []))) (JList [])
     = Inr (JList [])"
  by (simp add: get_json_result bind_exc_def except_Exception_def)

lemma get_vanilla_versions_total: "\<exists>j. fst (get_vanilla_versions self nw) = Inr j"
proof (cases "attr_MOJANG_MANIFEST_URL self")
  case None
  then show ?thesis
    by (simp add: get_vanilla_versions_def getattr_def except_Exception_def)
next
  case (Some url)
  obtain r nw1 where r: "requests_get_json url nw = (r, nw1)"
    by (cases "requests_get_json url nw")
  have "\<exists>j. except_Exception
                  (bind_exc r (\<lambda>data.
                     bind_exc (subscript data ''versions'') (\<lambda>versions.
                       bind_exc (py_iter versions) (\<lambda>vs.
                         bind_exc (release_ids vs) (\<lambda>ids. Inr (JList ids))))))
                  (JList []) = Inr j"
  proof (rule except_Exception_total)
    fix e
    assume "bind_exc r (\<lambda>data.
                     bind_exc (subscript data ''versions'') (\<lambda>versions.
                       bind_exc (py_iter versions) (\<lambda>vs.
                         bind_exc (release_ids vs) (\<lambda>ids. Inr (JList ids))))) = Inl e"
    then show "is_Exception e"
      using requests_get_json_exc [of url nw e] r
      by (auto dest!: bind_exc_Inl dest: subscript_exc py_iter_exc release_ids_exc)
  qed
  with Some r show ?thesis
    by (simp add: get_vanilla_versions_def getattr_def)
qed

lemma get_vanilla_versions_failed:
  assumes "\<And>url. attr_MOJANG_MANIFEST_URL self = Some url \<Longrightarrow> is_failure (next_reply nw url)"
  shows "fst (get_vanilla_versions self nw) = Inr (JList [])"
proof (cases "attr_MOJANG_MANIFEST_URL self")
  case None
  then show ?thesis
    by (simp add: get_vanilla_versions_def getattr_def except_Exception_def)
next
  case (Some url)
  from assms [OF Some] obtain e where
    "fst (requests_get_json url nw) = Inl e" "is_Exception e"
    using requests_get_json_result by blast
  with Some show ?thesis
    by (cases "requests_get_json url nw")
       (simp add: get_vanilla_versions_def getattr_def bind_exc_def except_Exception_def)
qed

text \<open>
  As \<^verbatim>\<open>__init__\<close> builds the object, \<^verbatim>\<open>get_vanilla_versions\<close> fails on reading
  \<^verbatim>\<open>self.MOJANG_MANIFEST_URL\<close> and returns the empty list without any request.
\<close>

lemma get_vanilla_versions_as_constructed:
  "get_vanilla_versions MinecraftVersionAPI_init nw = (Inr (JList []), nw)"
  by (simp add: get_vanilla_versions_def MinecraftVersionAPI_init_def getattr_def
        except_Exception_def)

text \<open>
  Claim C5. The version-list and build-list calls of the Paper and Leaf clients and
  \<^verbatim>\<open>get_vanilla_versions\<close> always return a value, whatever the network answers, and
  never raise; when the request fails (no connection, error status, body that is not
  JSON) the value is the empty list.
\<close>

theorem resolver_lists_never_raise:
  "(\<exists>j. fst (PaperAPI_get_available_versions nw) = Inr j) \<and>
   (is_failure (next_reply nw (build_url (rstrip_slash PAPER_API_URL) ''projects/paper'')) \<longrightarrow>
      fst (PaperAPI_get_available_versions nw) = Inr (JList [])) \<and>
   (\<exists>j. fst (PaperAPI_get_builds version nw) = Inr j) \<and>
   (is_failure (next_reply nw (build_url (rstrip_slash PAPER_API_URL)
                   (''projects/paper/versions/'' @ version))) \<longrightarrow>
      fst (PaperAPI_get_builds version nw) = Inr (JList [])) \<and>
   (\<exists>j. fst (LeafAPI_get_available_versions nw) = Inr j) \<and>
   (is_failure (next_reply nw (build_url (rstrip_slash LEAF_API_URL) ''projects/leaf'')) \<longrightarrow>
      fst (LeafAPI_get_available_versions nw) = Inr (JList [])) \<and>
   (\<exists>j. fst (LeafAPI_get_builds version nw) = Inr j) \<and>
   (is_failure (next_reply nw (build_url (rstrip_slash LEAF_API_URL)
                   (''projects/leaf/versions/'' @ version))) \<longrightarrow>
      fst (LeafAPI_get_builds version nw) = Inr (JList [])) \<and>
   (\<exists>j. fst (get_vanilla_versions self nw) = Inr j) \<and>
   ((\<forall>url. attr_MOJANG_MANIFEST_URL self = Some url \<longrightarrow> is_failure (next_reply nw url)) \<longrightarrow>
      fst (get_vanilla_versions self nw) = Inr (JList []))"
proof -
  have fst_case: "\<And>(p :: (py_exc + json) \<times> network) f.
      fst (case p of (r, nw1) \<Rightarrow> (f r, nw1)) = f (fst p)"
    by (simp add: split_beta)
  have a: "\<exists>j. fst (PaperAPI_get_available_versions nw) = Inr j"
    unfolding PaperAPI_get_available_versions_def fst_case by (rule project_list_total)
  have a': "is_failure (next_reply nw (build_url (rstrip_slash PAPER_API_URL) ''projects/paper'')) \<longrightarrow>
      fst (PaperAPI_get_available_versions nw) = Inr (JList [])"
    unfolding PaperAPI_get_available_versions_def fst_case by (rule impI) (rule project_list_failed)
  have b: "\<exists>j. fst (PaperAPI_get_builds version nw) = Inr j"
    unfolding PaperAPI_get_builds_def fst_case by (rule project_list_total)
  have b': "is_failure (next_reply nw (build_url (rstrip_slash PAPER_API_URL)
                   (''projects/paper/versions/'' @ version))) \<longrightarrow>
      fst (PaperAPI_get_builds version nw) = Inr (JList [])"
    unfolding PaperAPI_get_builds_def fst_case by (rule impI) (rule project_list_failed)
  have c: "\<exists>j. fst (LeafAPI_get_available_versions nw) = Inr j"
    unfolding LeafAPI_get_available_versions_def fst_case by (rule project_list_total)
  have c': "is_failure (next_reply nw (build_url (rstrip_slash LEAF_API_URL) ''projects/leaf'')) \<longrightarrow>
      fst (LeafAPI_get_available_versions nw) = Inr (JList [])"
    unfolding LeafAPI_get_available_versions_def fst_case by (rule impI) (rule project_list_failed)
  have d: "\<exists>j. fst (LeafAPI_get_builds version nw) = Inr j"
    unfolding LeafAPI_get_builds_def fst_case by (rule project_list_total)
  have d': "is_failure (next_reply nw (build_url (rstrip_slash LEAF_API_URL)
                   (''projects/leaf/versions/'' @ version))) \<longrightarrow>
      fst (LeafAPI_get_builds version nw) = Inr (JList [])"
    unfolding LeafAPI_get_builds_def fst_case by (rule impI) (rule project_list_failed)
  have e: "\<exists>j. fst (get_vanilla_versions self nw) = Inr j"
    by (rule get_vanilla_versions_total)
  have e': "(\<forall>url. attr_MOJANG_MANIFEST_URL self = Some url \<longrightarrow> is_failure (next_reply nw url)) \<longrightarrow>
      fst (get_vanilla_versions self nw) = Inr (JList [])"
    using get_vanilla_versions_failed [of self nw] by blast
  show ?thesis
    by (intro conjI a a' b b' c c' d d' e e')
qed

theorem resolver_lists_never_raise_witness:
  "is_failure (next_reply dead_network (build_url (rstrip_slash PAPER_API_URL) ''projects/paper'')) \<and>
   is_failure (next_reply dead_network (build_url (rstrip_slash LEAF_API_URL)
                   (''projects/leaf/versions/'' @ ''1.21.4''))) \<and>
   is_failure (next_reply dead_network MOJANG_MANIFEST_URL) \<and>
   fst (PaperAPI_get_available_versions dead_network) = Inr (JList []) \<and>
   fst (PaperAPI_get_builds ''1.21.4'' dead_network) = Inr (JList []) \<and>
   fst (LeafAPI_get_available_versions dead_network) = Inr (JList []) \<and>
   fst (LeafAPI_get_builds ''1.21.4'' dead_network) = Inr (JList []) \<and>
   fst (get_vanilla_versions
          (MinecraftVersionAPI_init\<lparr>attr_MOJANG_MANIFEST_URL := Some MOJANG_MANIFEST_URL\<rparr>)
          dead_network) = Inr (JList [])"
proof -
  have dead: "\<And>url. is_failure (next_reply dead_network url)"
    by (simp add: is_failure_def next_reply_def dead_network_def)
  from resolver_lists_never_raise [of dead_network "''1.21.4''"
      "MinecraftVersionAPI_init\<lparr>attr_MOJANG_MANIFEST_URL := Some MOJANG_MANIFEST_URL\<rparr>"]
  show ?thesis
    by (simp add: dead)
qed

section \<open>Progress reporting of a download\<close>

lemma write_chunks_ok:
  "write_chunks cap has_cb tsize cs st = (None, st') \<Longrightarrow>
     file_bytes st' = file_bytes st @ concat cs \<and>
     downloaded st' = downloaded st + int (length (concat cs)) \<and>
     callback_calls st' = callback_calls st @
       (if has_cb \<and> 0 < tsize then map (\<lambda>d. (d, tsize)) (running_sums (downloaded st) cs) else [])"
proof (induction cs arbitrary: st)
  case Nil
  then show ?case by simp
next
  case (Cons c cs)
  from Cons.prems have fits: "\<not> cap < length (file_bytes st) + length c"
    by (auto split: if_splits)
  show ?case
  proof (cases "has_cb \<and> 0 < tsize")
    case True
    with Cons.prems fits have
      "write_chunks cap has_cb tsize cs
         (st\<lparr>file_bytes := file_bytes st @ c, downloaded := downloaded st + int (length c),
             callback_calls := callback_calls st @ [(downloaded st + int (length c), tsize)]\<rparr>)
       = (None, st')"
      by (simp add: Let_def)
    from Cons.IH [OF this] True show ?thesis by simp
  next
    case False
    with Cons.prems fits have
      "write_chunks cap has_cb tsize cs
         (st\<lparr>file_bytes := file_bytes st @ c, downloaded := downloaded st + int (length c)\<rparr>)
       = (None, st')"
      by (simp add: Let_def)
    from Cons.IH [OF this] False show ?thesis by simp
  qed
qed

lemma running_sums_lower: "d \<in> set (running_sums acc cs) \<Longrightarrow> acc \<le> d"
  by (induction cs arbitrary: acc) force+

lemma running_sums_sorted: "sorted (running_sums acc cs)"
proof (induction cs arbitrary: acc)
  case Nil
  show ?case by simp
next
  case (Cons c cs)
  show ?case using Cons.IH running_sums_lower by (fastforce)
qed

lemma running_sums_last:
  "cs \<noteq> [] \<Longrightarrow> last (running_sums acc cs) = acc + int (length (concat cs))"
proof (induction cs arbitrary: acc)
  case Nil
  then show ?case by simp
next
  case (Cons c cs)
  show ?case
  proof (cases cs)
    case Nil
    then show ?thesis by simp
  next
    case (Cons d ds)
    with Cons.IH [of "acc + int (length c)"] show ?thesis by simp
  qed
qed

lemma running_sums_length: "length (running_sums acc cs) = length cs"
  by (induction cs arbitrary: acc) auto

text \<open>
  Claim C6. When \<^verbatim>\<open>download_file\<close> returns \<^verbatim>\<open>True\<close>, the destination holds the
  chunks in order; with a callback and a declared total size above zero the callback is
  called once per chunk with the running sums of the chunk lengths, which never
  decrease and end at the number of bytes written; without a positive declared size
  (header absent, zero or negative) the callback is not called at all.
\<close>

theorem download_file_progress:
  assumes "download_file env has_cb = (Inr True, written, calls)"
  shows "\<exists>tsize. total_size_of (content_length env) = Inr tsize \<and>
           written = Some (concat (chunks env)) \<and>
           calls = (if has_cb \<and> 0 < tsize
                    then map (\<lambda>d. (d, tsize)) (running_sums 0 (chunks env)) else []) \<and>
           sorted (map fst calls) \<and>
           (calls \<noteq> [] \<longrightarrow> fst (last calls) = int (length (concat (chunks env)))) \<and>
           (content_length env = NoHeader \<or> content_length env = HeaderInt 0 \<longrightarrow> calls = [])"
proof -
  from assms obtain tsize where t: "total_size_of (content_length env) = Inr tsize"
    by (cases "total_size_of (content_length env)")
       (auto simp: download_file_def split: if_splits)
  from assms t obtain st where
    w: "write_chunks (disk_capacity env) has_cb tsize (chunks env) initial_download_state = (None, st)"
    and wr: "written = Some (file_bytes st)" and cl: "calls = callback_calls st"
    by (auto simp: download_file_def split: if_splits prod.splits option.splits)
  from write_chunks_ok [OF w] have
    f: "file_bytes st = concat (chunks env)" and
    c: "callback_calls st =
          (if has_cb \<and> 0 < tsize then map (\<lambda>d. (d, tsize)) (running_sums 0 (chunks env)) else [])"
    by (simp_all add: initial_download_state_def)
  have fst_calls: "map fst calls = (if has_cb \<and> 0 < tsize then running_sums 0 (chunks env) else [])"
    using c cl by (simp add: comp_def)
  have s: "sorted (map fst calls)"
    unfolding fst_calls by (simp add: running_sums_sorted)
  have l: "calls \<noteq> [] \<longrightarrow> fst (last calls) = int (length (concat (chunks env)))"
  proof
    assume ne: "calls \<noteq> []"
    then have on: "has_cb \<and> 0 < tsize" and cne: "chunks env \<noteq> []"
      using c cl by (auto split: if_splits)
    have "fst (last calls) = last (map fst calls)"
      using ne by (simp add: last_map)
    also have "\<dots> = last (running_sums 0 (chunks env))"
      using on fst_calls by simp
    also have "\<dots> = int (length (concat (chunks env)))"
      using running_sums_last [OF cne, of 0] by simp
    finally show "fst (last calls) = int (length (concat (chunks env)))" .
  qed
  have z: "content_length env = NoHeader \<or> content_length env = HeaderInt 0 \<longrightarrow> calls = []"
    using t c cl by (auto simp: total_size_of_def)
  from t wr f c cl s l z show ?thesis by simp
qed

theorem download_file_progress_witness:
  "download_file example_download True =
     (Inr True, Some (concat (chunks example_download)),
      [(250, 1000), (500, 1000), (750, 1000), (1000, 1000)]) \<and>
   sorted (map fst [(250, 1000), (500, 1000), (750, 1000), (1000 :: int, 1000 :: int)]) \<and>
   int (length (concat (chunks example_download))) = 1000"
proof -
  have run: "download_file example_download True =
     (Inr True, Some (concat (chunks example_download)),
      [(250, 1000), (500, 1000), (750, 1000), (1000, 1000)])"
    by (simp add: download_file_def example_download_def total_size_of_def
          initial_download_state_def Let_def)
  from download_file_progress [OF run] show ?thesis
    using run by auto
qed

section \<open>Construction of servers and the version check\<close>

lemma validate_install_directory_None:
  "validate_install_directory env None fs = (Inr None, fs)"
  by (simp add: validate_install_directory_def)

lemma versions_from_api_None:
  "versions_from_api loop None method nw = (Inl AttributeError, nw)"
  by (cases loop) (simp_all add: versions_from_api_def get_event_loop_def api_coroutine_def)

lemma supported_versions_no_api:
  assumes "api self = None" and "cached_versions self = None"
  shows "supported_versions loop self nw =
     (case kind self of
        Vanilla \<Rightarrow> (Inr (json_strings DEFAULT_MINECRAFT_VERSIONS),
                     self\<lparr>cached_versions := Some (json_strings DEFAULT_MINECRAFT_VERSIONS)\<rparr>, nw)
      | Spigot \<Rightarrow> (Inr (json_strings SPIGOT_SUPPORTED_VERSIONS), self, nw)
      | Forge \<Rightarrow> (Inr (json_strings FORGE_SUPPORTED_VERSIONS), self, nw)
      | Paper \<Rightarrow> (Inl AttributeError, self, nw)
      | Leaf \<Rightarrow> (Inl AttributeError, self, nw))"
  using assms
  by (cases "kind self") (simp_all add: supported_versions_def versions_from_api_None)

lemma contains_json_strings: "contains v (json_strings xs) = Inr (v \<in> set xs)"
  by (auto simp: contains_def json_strings_def)

lemma validate_version_support_no_api:
  assumes "api self = None" and "cached_versions self = None"
  shows "validate_version_support loop self nw =
     (case kind self of
        Vanilla \<Rightarrow>
          (if version_attr self \<in> set DEFAULT_MINECRAFT_VERSIONS
           then Inr (self\<lparr>cached_versions := Some (json_strings DEFAULT_MINECRAFT_VERSIONS)\<rparr>)
           else Inl UnsupportedVersionError, nw)
      | Spigot \<Rightarrow>
          (if version_attr self \<in> set SPIGOT_SUPPORTED_VERSIONS then Inr self
           else Inl UnsupportedVersionError, nw)
      | Forge \<Rightarrow>
          (if version_attr self \<in> set FORGE_SUPPORTED_VERSIONS then Inr self
           else Inl UnsupportedVersionError, nw)
      | Paper \<Rightarrow> (Inl AttributeError, nw)
      | Leaf \<Rightarrow> (Inl AttributeError, nw))"
  by (cases "kind self")
     (simp_all add: validate_version_support_def is_version_supported_def
        supported_versions_no_api [OF assms] contains_json_strings)

lemma BaseServer_init_eq:
  "BaseServer_init env k version_arg ram port dir fs =
     (if \<not> valid_arguments version_arg ram port then (Inl ValidationError, fs)
      else
        (case validate_install_directory env dir fs of
           (Inl e, fs1) \<Rightarrow> (Inl (if e = PathValidationError then ValidationError else e), fs1)
         | (Inr d, fs1) \<Rightarrow>
             (Inr \<lparr>kind = k, version_attr = strip version_arg, ram_allocation = ram, server_port = port,
                   install_directory_attr = d, api = None, download_manager = None,
                   build = JNull, cached_versions = None\<rparr>,
              fs1)))"
  by (auto simp: BaseServer_init_def valid_arguments_def)

lemma Server_init_eq:
  "Server_init loop env k version_arg build_arg ram port dir fs nw =
     (if \<not> valid_arguments version_arg ram port then (Inl ValidationError, fs, nw)
      else
        (case validate_install_directory env dir fs of
           (Inl e, fs1) \<Rightarrow> (Inl (if e = PathValidationError then ValidationError else e), fs1, nw)
         | (Inr d, fs1) \<Rightarrow>
             (case k of
                Vanilla \<Rightarrow>
                  (if strip version_arg \<in> set DEFAULT_MINECRAFT_VERSIONS
                   then Inr \<lparr>kind = k, version_attr = strip version_arg, ram_allocation = ram,
                             server_port = port, install_directory_attr = d, api = None,
                             download_manager = None, build = build_arg,
                             cached_versions = Some (json_strings DEFAULT_MINECRAFT_VERSIONS)\<rparr>
                   else Inl UnsupportedVersionError, fs1, nw)
              | Spigot \<Rightarrow>
                  (if strip version_arg \<in> set SPIGOT_SUPPORTED_VERSIONS
                   then Inr \<lparr>kind = k, version_attr = strip version_arg, ram_allocation = ram,
                             server_port = port, install_directory_attr = d, api = None,
                             download_manager = None, build = build_arg, cached_versions = None\<rparr>
                   else Inl UnsupportedVersionError, fs1, nw)
              | Forge \<Rightarrow>
                  (if strip version_arg \<in> set FORGE_SUPPORTED_VERSIONS
                   then Inr \<lparr>kind = k, version_attr = strip version_arg, ram_allocation = ram,
                             server_port = port, install_directory_attr = d, api = None,
                             download_manager = None, build = build_arg, cached_versions = None\<rparr>
                   else Inl UnsupportedVersionError, fs1, nw)
              | Paper \<Rightarrow> (Inl AttributeError, fs1, nw)
              | Leaf \<Rightarrow> (Inl AttributeError, fs1, nw))))"
proof (cases "valid_arguments version_arg ram port")
  case False
  then show ?thesis by (simp add: Server_init_def BaseServer_init_eq)
next
  case True
  obtain r fs1 where v: "validate_install_directory env dir fs = (r, fs1)"
    by (cases "validate_install_directory env dir fs")
  show ?thesis
  proof (cases r)
    case (Inl e)
    with True v show ?thesis by (simp add: Server_init_def BaseServer_init_eq)
  next
    case (Inr d)
    with True v show ?thesis
      by (cases k) (simp_all add: Server_init_def BaseServer_init_eq validate_version_support_no_api)
  qed
qed

lemma project_call_failure:
  assumes "is_failure (next_reply nw (url @ endpoint))"
  shows "fst (project_call (Some ()) (Some url) endpoint key nw) = Inr (JList [])"
  using assms
  by (cases "next_reply nw (url @ endpoint)")
     (simp_all add: project_call_def getattr_def bind_exc_def requests_get_json_def http_get_def
        except_Exception_def is_failure_def)

lemma project_call_missing_attribute:
  assumes "client = None \<or> api_url = None"
  shows "project_call client api_url endpoint key nw = (Inr (JList []), nw)"
  using assms
  by (cases client; cases api_url)
     (auto simp: project_call_def getattr_def bind_exc_def except_Exception_def)

lemma get_paper_versions_as_constructed:
  "get_paper_versions MinecraftVersionAPI_init nw = (Inr (JList []), nw)"
  by (simp add: get_paper_versions_def project_call_missing_attribute MinecraftVersionAPI_init_def)

lemma Paper_supported_versions_after_failure:
  assumes "kind self = Paper" and "cached_versions self = None" and "api self = Some a"
    and "loop \<noteq> Running"
    and "attr_client a = Some ()" and "attr_PAPER_API_URL a = Some url"
    and "is_failure (next_reply nw (url @ ''/projects/paper''))"
  shows "fst (supported_versions loop self nw) = Inr (JList [])"
proof -
  obtain r nw1 where g: "get_paper_versions a nw = (r, nw1)"
    by (cases "get_paper_versions a nw")
  from project_call_failure [OF assms(7), of "''versions''"] g assms(5,6)
  have r: "r = Inr (JList [])" by (simp add: get_paper_versions_def)
  from assms(4) have "versions_from_api loop (Some a) get_paper_versions nw = (Inr (JList []), nw1)"
    using g r
    by (cases loop)
       (simp_all add: versions_from_api_def get_event_loop_def api_coroutine_def
          run_until_complete_def asyncio_run_def)
  with assms(1,2,3) show ?thesis by (simp add: supported_versions_def)
qed

lemma Leaf_supported_versions_after_failure:
  assumes "kind self = Leaf" and "cached_versions self = None" and "api self = Some a"
    and "loop \<noteq> Running"
    and "attr_client a = Some ()" and "attr_LEAF_API_URL a = Some url"
    and "is_failure (next_reply nw (url @ ''/projects/leaf''))"
  shows "fst (supported_versions loop self nw) = Inr (json_strings leaf_fallback)"
proof -
  obtain r nw1 where g: "get_leaf_versions a nw = (r, nw1)"
    by (cases "get_leaf_versions a nw")
  from project_call_failure [OF assms(7), of "''versions''"] g assms(5,6)
  have r: "r = Inr (JList [])" by (simp add: get_leaf_versions_def)
  from assms(4) have "versions_from_api loop (Some a) get_leaf_versions nw = (Inr (JList []), nw1)"
    using g r
    by (cases loop)
       (simp_all add: versions_from_api_def get_event_loop_def api_coroutine_def
          run_until_complete_def asyncio_run_def)
  with assms(1,2,3) show ?thesis by (simp add: supported_versions_def truthy_def Let_def)
qed

lemma Server_init_Paper_raises:
  "isl (fst (Server_init loop env Paper version_arg build_arg ram port dir fs nw))"
  by (simp add: Server_init_eq split: prod.splits sum.splits)

text \<open>
  Claim C10, at a failing input. \<^verbatim>\<open>BaseServer.__init__\<close> sets \<^verbatim>\<open>self._api = None\<close>
  and \<^verbatim>\<open>PaperServer.__init__\<close> then reads \<^verbatim>\<open>supported_versions\<close>, which calls
  \<^verbatim>\<open>self._api.get_paper_versions()\<close>: the constructor raises, for every argument,
  and when the arguments pass the checks of the base class and no custom directory is
  given it raises \<^verbatim>\<open>AttributeError\<close>, not \<^verbatim>\<open>UnsupportedVersionError\<close>.
  \<^verbatim>\<open>PaperServer("1.21")\<close> on a network where every request fails raises
  \<^verbatim>\<open>AttributeError\<close> without having sent a request. (On an object whose
  \<^verbatim>\<open>_api\<close> is set, a failed request does leave Paper with the empty list and Leaf
  with its fallback: the two lemmas above.)
\<close>

theorem PaperServer_init_raises_AttributeError:
  "isl (fst (PaperServer_init loop env version_arg build_arg ram port dir fs nw)) \<and>
   PaperServer_init loop env version_arg build_arg ram port None fs nw =
     (if valid_arguments version_arg ram port then Inl AttributeError else Inl ValidationError,
      fs, nw) \<and>
   valid_arguments ''1.21'' 2048 25565 \<and>
   fst (PaperServer_init Idle plain_env ''1.21'' JNull 2048 25565 None [] dead_network) =
     Inl AttributeError \<and>
   requests (snd (snd (PaperServer_init Idle plain_env ''1.21'' JNull 2048 25565 None []
                         dead_network))) = []"
proof -
  have a: "isl (fst (PaperServer_init loop env version_arg build_arg ram port dir fs nw))"
    by (simp add: PaperServer_init_def Server_init_Paper_raises)
  have b: "PaperServer_init loop env version_arg build_arg ram port None fs nw =
     (if valid_arguments version_arg ram port then Inl AttributeError else Inl ValidationError,
      fs, nw)"
    by (simp add: PaperServer_init_def Server_init_eq validate_install_directory_None)
  have c: "valid_arguments ''1.21'' 2048 25565" by code_simp
  have d: "fst (PaperServer_init Idle plain_env ''1.21'' JNull 2048 25565 None [] dead_network) =
     Inl AttributeError"
    by (simp add: PaperServer_init_def Server_init_eq validate_install_directory_None c)
  have e: "requests (snd (snd (PaperServer_init Idle plain_env ''1.21'' JNull 2048 25565 None []
                         dead_network))) = []"
    by (simp add: PaperServer_init_def Server_init_eq validate_install_directory_None c
          dead_network_def)
  show ?thesis by (rule conjI [OF a conjI [OF b conjI [OF c conjI [OF d e]]]])
qed




section \<open>Build selection of Paper and Leaf\<close>
















text \<open>
  Between \<^verbatim>\<open>__aenter__\<close> and \<^verbatim>\<open>__aexit__\<close> the API object is the one
  \<^verbatim>\<open>MinecraftVersionAPI()\<close> constructs, which lacks \<^verbatim>\<open>_client\<close>: the list of
  builds is empty whatever the network holds.
\<close>

lemma get_available_builds_as_entered:
  "api self = Some MinecraftVersionAPI_init \<Longrightarrow>
     get_available_builds get_paper_builds self nw = (Inr (JList []), nw) \<and>
     get_available_builds get_leaf_builds self nw = (Inr (JList []), nw)"
  by (simp add: get_available_builds_def get_paper_builds_def get_leaf_builds_def
        MinecraftVersionAPI_init_def project_call_missing_attribute)




section \<open>The installation pipeline\<close>

lemma outcome_at_0: "outcome_at ((n, f) # rest) 0 w = fst (f w)"
  by (simp add: outcome_at_def)

lemma outcome_at_Suc: "outcome_at ((n, f) # rest) (Suc i) w = outcome_at rest i (snd (f w))"
  by (simp add: outcome_at_def)

lemma started_steps_append: "started_steps (a @ b) = started_steps a @ started_steps b"
  by (simp add: started_steps_def)

lemma started_steps_Nil: "started_steps [] = []"
  by (simp add: started_steps_def)

lemma started_steps_start: "started_steps ((DEBUG, starting_msg n) # rs) = n # started_steps rs"
  by (simp add: started_steps_def starting_msg_def)

lemma started_steps_completed: "started_steps ((DEBUG, completed_msg n) # rs) = started_steps rs"
  by (simp add: started_steps_def completed_msg_def)

lemma started_steps_error: "started_steps ((ERROR, m) # rs) = started_steps rs"
  by (simp add: started_steps_def)

lemma started_steps_info: "started_steps ((INFO, m) # rs) = started_steps rs"
  by (simp add: started_steps_def)

lemmas started_steps_simps = started_steps_append started_steps_Nil started_steps_start
  started_steps_completed started_steps_error started_steps_info

lemma run_steps_ok:
  "\<forall>i<length steps. outcome_at steps i (world st) = Returns True \<Longrightarrow>
   fst (run_steps steps st) = Inr () \<and>
   world (snd (run_steps steps st)) = world_after steps (length steps) (world st) \<and>
   started_steps (log_records (snd (run_steps steps st))) =
     started_steps (log_records st) @ map fst steps"
proof (induction steps arbitrary: st)
  case Nil
  show ?case by simp
next
  case (Cons step rest)
  obtain n f where step: "step = (n, f)" by (cases step)
  obtain out w where fw: "f (world st) = (out, w)" by (cases "f (world st)")
  from Cons.prems have "outcome_at (step # rest) 0 (world st) = Returns True" by blast
  with step fw have out: "out = Returns True" by (simp add: outcome_at_0)
  define st' where "st' = log_to DEBUG (completed_msg n)
      ((log_to DEBUG (starting_msg n) st)\<lparr>world := w\<rparr>)"
  have w': "world st' = w" by (simp add: st'_def log_to_def)
  have run: "run_steps (step # rest) st = run_steps rest st'"
    using step fw out by (simp add: st'_def log_to_def)
  have "\<forall>i<length rest. outcome_at rest i (world st') = Returns True"
  proof (intro allI impI)
    fix i assume "i < length rest"
    with Cons.prems have "outcome_at (step # rest) (Suc i) (world st) = Returns True" by auto
    with step fw w' show "outcome_at rest i (world st') = Returns True"
      by (simp add: outcome_at_Suc)
  qed
  from Cons.IH [OF this] w' step fw show ?case
    unfolding run
    by (simp add: st'_def log_to_def started_steps_simps)
qed


lemma run_steps_fail:
  "k < length steps \<Longrightarrow>
   \<forall>i<k. outcome_at steps i (world st) = Returns True \<Longrightarrow>
   outcome_at steps k (world st) \<noteq> Returns True \<Longrightarrow>
   fst (run_steps steps st) =
     Inl (case outcome_at steps k (world st) of
            Returns b \<Rightarrow>
              ServerInstallationError
                (step_error_msg (fst (steps ! k)) (step_failed_msg (fst (steps ! k))))
                (Some (ServerInstallationError (step_failed_msg (fst (steps ! k))) None))
          | Raises e cause \<Rightarrow>
              if is_Exception e
              then ServerInstallationError (step_error_msg (fst (steps ! k)) cause) (Some e)
              else e) \<and>
   world (snd (run_steps steps st)) = world_after steps (Suc k) (world st) \<and>
   started_steps (log_records (snd (run_steps steps st))) =
     started_steps (log_records st) @ map fst (take (Suc k) steps)"
proof (induction steps arbitrary: st k)
  case Nil
  then show ?case by simp
next
  case (Cons step rest)
  obtain n f where step: "step = (n, f)" by (cases step)
  obtain out w where fw: "f (world st) = (out, w)" by (cases "f (world st)")
  show ?case
  proof (cases k)
    case 0
    with Cons.prems step fw have bad: "out \<noteq> Returns True" by (simp add: outcome_at_0)
    have o: "outcome_at (step # rest) 0 (world st) = out"
      using step fw by (simp add: outcome_at_0)
    show ?thesis
    proof (cases out)
      case (Returns b)
      with bad have "b = False" by simp
      with Returns step fw 0 o show ?thesis
        by (simp add: log_to_def started_steps_simps Let_def)
    next
      case (Raises e cause)
      with step fw 0 o show ?thesis
        by (simp add: log_to_def started_steps_simps Let_def)
    qed
  next
    case (Suc j)
    from Cons.prems Suc have "outcome_at (step # rest) 0 (world st) = Returns True" by blast
    with step fw have out: "out = Returns True" by (simp add: outcome_at_0)
    define st' where "st' = log_to DEBUG (completed_msg n)
        ((log_to DEBUG (starting_msg n) st)\<lparr>world := w\<rparr>)"
    have w': "world st' = w" by (simp add: st'_def log_to_def)
    have run: "run_steps (step # rest) st = run_steps rest st'"
      using step fw out by (simp add: st'_def log_to_def)
    have a: "j < length rest" using Cons.prems Suc by simp
    have b: "\<forall>i<j. outcome_at rest i (world st') = Returns True"
    proof (intro allI impI)
      fix i assume "i < j"
      with Cons.prems Suc have "outcome_at (step # rest) (Suc i) (world st) = Returns True" by auto
      with step fw w' show "outcome_at rest i (world st') = Returns True"
        by (simp add: outcome_at_Suc)
    qed
    have c: "outcome_at rest j (world st') \<noteq> Returns True"
      using Cons.prems Suc step fw w' by (simp add: outcome_at_Suc)
    have o: "outcome_at (step # rest) (Suc j) (world st) = outcome_at rest j (world st')"
      using step fw w' by (simp add: outcome_at_Suc)
    from Cons.IH [OF a b c] w' step fw Suc o show ?thesis
      unfolding run
      by (simp add: st'_def log_to_def started_steps_simps split: step_outcome.splits)
  qed
qed

lemma install_via_run_steps:
  assumes "install_directory self (world st) = (Directory d, w0)"
  shows "\<exists>st1. world st1 = w0 \<and> started_steps (log_records st1) = started_steps (log_records st) \<and>
           fst (install self st) =
             (case fst (run_steps (install_steps self) st1) of Inl e \<Rightarrow> Inl e | Inr u \<Rightarrow> Inr True) \<and>
           world (snd (install self st)) = world (snd (run_steps (install_steps self) st1)) \<and>
           started_steps (log_records (snd (install self st))) =
             started_steps (log_records (snd (run_steps (install_steps self) st1)))"
proof -
  define st1 where "st1 = log_to INFO (installing_msg self d) (st\<lparr>world := w0\<rparr>)"
  have a: "world st1 = w0" by (simp add: st1_def log_to_def)
  have b: "started_steps (log_records st1) = started_steps (log_records st)"
    by (simp add: st1_def log_to_def started_steps_simps)
  obtain r st2 where r: "run_steps (install_steps self) st1 = (r, st2)"
    by (cases "run_steps (install_steps self) st1")
  have i: "install self st =
     (case r of Inl e \<Rightarrow> (Inl e, st2)
      | Inr u \<Rightarrow> (Inr True, log_to INFO (installed_msg self) st2))"
    using assms r by (simp add: install_def st1_def [symmetric] Let_def split: sum.splits)
  have "fst (install self st) = (case r of Inl e \<Rightarrow> Inl e | Inr u \<Rightarrow> Inr True) \<and>
        world (snd (install self st)) = world st2 \<and>
        started_steps (log_records (snd (install self st))) = started_steps (log_records st2)"
    unfolding i by (cases r) (simp_all add: log_to_def started_steps_simps)
  with a b r show ?thesis by auto
qed

lemma length_install_steps: "length (install_steps self) = 5"
  by (simp add: install_steps_def)

text \<open>
  When the installation directory cannot be determined, no step is started: a
  \<^verbatim>\<open>ServerInstallationError\<close> of the property is raised as it is, another
  \<^verbatim>\<open>Exception\<close> is wrapped as an unexpected error, and an exception outside
  \<^verbatim>\<open>Exception\<close> passes through.
\<close>

lemma install_without_directory:
  "(install_directory self (world st) = (DirectoryInstallationError msg, w0) \<longrightarrow>
      fst (install self st) = Inl (ServerInstallationError msg None) \<and>
      world (snd (install self st)) = w0 \<and>
      started_steps (log_records (snd (install self st))) = started_steps (log_records st)) \<and>
   (install_directory self (world st) = (DirectoryOtherError e cause, w0) \<longrightarrow>
      fst (install self st) =
        (if is_Exception e
         then Inl (ServerInstallationError
                     (''Unexpected error during server installation: '' @ cause) (Some e))
         else Inl e) \<and>
      world (snd (install self st)) = w0 \<and>
      started_steps (log_records (snd (install self st))) = started_steps (log_records st))"
  by (simp add: install_def unexpected_msg_def log_to_def started_steps_simps Let_def)

text \<open>
  Claim C8, as amended. Once the installation directory is known, \<^verbatim>\<open>install\<close> runs
  the five steps Java installation, jar download, properties, start script, EULA in
  this order. If all of them return true it returns \<^verbatim>\<open>True\<close>. Otherwise let \<open>k\<close> be
  the first step that does not return true. If it returns false, or raises an exception
  \<open>e\<close> derived from \<^verbatim>\<open>Exception\<close>, \<^verbatim>\<open>install\<close> raises
  \<^verbatim>\<open>ServerInstallationError\<close> \<^verbatim>\<open>from e\<close> with the message
  \<^verbatim>\<open>Installation failed at step '<name>': <str(e)>\<close> (for a false return \<open>e\<close> is the
  inner \<^verbatim>\<open>ServerInstallationError\<close> with the message
  \<^verbatim>\<open>Installation failed at step '<name>'\<close>). If it raises an exception that is not
  derived from \<^verbatim>\<open>Exception\<close>, that exception leaves \<^verbatim>\<open>install\<close> unchanged. In
  every case the steps after \<open>k\<close> are never started, and the world is the one that the
  steps up to \<open>k\<close> left behind, nothing undone.
\<close>

theorem install_pipeline:
  assumes "install_directory self (world st) = (Directory d, w0)"
  shows "map fst (install_steps self) =
           [''Java installation'', ''Server jar download'', ''Server properties creation'',
            ''Start script creation'', ''EULA file creation''] \<and>
         map snd (install_steps self) =
           [ensure_java_step self, download_jar_step self, create_properties_step self,
            create_script_step self, create_eula_step self] \<and>
         ((\<forall>i<5. outcome_at (install_steps self) i w0 = Returns True) \<longrightarrow>
            fst (install self st) = Inr True \<and>
            world (snd (install self st)) = world_after (install_steps self) 5 w0 \<and>
            started_steps (log_records (snd (install self st))) =
              started_steps (log_records st) @ map fst (install_steps self)) \<and>
         (\<forall>k<5. (\<forall>i<k. outcome_at (install_steps self) i w0 = Returns True) \<and>
                 outcome_at (install_steps self) k w0 \<noteq> Returns True \<longrightarrow>
            (outcome_at (install_steps self) k w0 = Returns False \<longrightarrow>
               fst (install self st) =
                 Inl (ServerInstallationError
                        (''Installation failed at step '' @ [CHR 0x27] @ fst (install_steps self ! k)
                           @ [CHR 0x27] @ '': '' @
                         ''Installation failed at step '' @ [CHR 0x27] @ fst (install_steps self ! k)
                           @ [CHR 0x27])
                        (Some (ServerInstallationError
                                 (''Installation failed at step '' @ [CHR 0x27]
                                    @ fst (install_steps self ! k) @ [CHR 0x27])
                                 None)))) \<and>
            (\<forall>e cause. outcome_at (install_steps self) k w0 = Raises e cause \<longrightarrow>
               fst (install self st) =
                 (if is_Exception e
                  then Inl (ServerInstallationError
                              (''Installation failed at step '' @ [CHR 0x27]
                                 @ fst (install_steps self ! k) @ [CHR 0x27] @ '': '' @ cause)
                              (Some e))
                  else Inl e)) \<and>
            world (snd (install self st)) = world_after (install_steps self) (Suc k) w0 \<and>
            started_steps (log_records (snd (install self st))) =
              started_steps (log_records st) @ map fst (take (Suc k) (install_steps self)))"
proof -
  from install_via_run_steps [OF assms] obtain st1 where
    w: "world st1 = w0" and
    l: "started_steps (log_records st1) = started_steps (log_records st)" and
    r: "fst (install self st) =
          (case fst (run_steps (install_steps self) st1) of Inl e \<Rightarrow> Inl e | Inr u \<Rightarrow> Inr True)" and
    rw: "world (snd (install self st)) = world (snd (run_steps (install_steps self) st1))" and
    rl: "started_steps (log_records (snd (install self st))) =
           started_steps (log_records (snd (run_steps (install_steps self) st1)))"
    by blast
  have names: "map fst (install_steps self) =
           [''Java installation'', ''Server jar download'', ''Server properties creation'',
            ''Start script creation'', ''EULA file creation'']"
    by (simp add: install_steps_def)
  have funs: "map snd (install_steps self) =
           [ensure_java_step self, download_jar_step self, create_properties_step self,
            create_script_step self, create_eula_step self]"
    by (simp add: install_steps_def)
  have ok: "(\<forall>i<5. outcome_at (install_steps self) i w0 = Returns True) \<longrightarrow>
            fst (install self st) = Inr True \<and>
            world (snd (install self st)) = world_after (install_steps self) 5 w0 \<and>
            started_steps (log_records (snd (install self st))) =
              started_steps (log_records st) @ map fst (install_steps self)"
  proof
    assume "\<forall>i<5. outcome_at (install_steps self) i w0 = Returns True"
    then have "\<forall>i<length (install_steps self). outcome_at (install_steps self) i (world st1) = Returns True"
      by (simp add: length_install_steps w)
    from run_steps_ok [OF this] show "fst (install self st) = Inr True \<and>
            world (snd (install self st)) = world_after (install_steps self) 5 w0 \<and>
            started_steps (log_records (snd (install self st))) =
              started_steps (log_records st) @ map fst (install_steps self)"
      by (simp add: r rw rl w l length_install_steps)
  qed
  have bad: "\<forall>k<5. (\<forall>i<k. outcome_at (install_steps self) i w0 = Returns True) \<and>
                 outcome_at (install_steps self) k w0 \<noteq> Returns True \<longrightarrow>
            (outcome_at (install_steps self) k w0 = Returns False \<longrightarrow>
               fst (install self st) =
                 Inl (ServerInstallationError
                        (''Installation failed at step '' @ [CHR 0x27] @ fst (install_steps self ! k)
                           @ [CHR 0x27] @ '': '' @
                         ''Installation failed at step '' @ [CHR 0x27] @ fst (install_steps self ! k)
                           @ [CHR 0x27])
                        (Some (ServerInstallationError
                                 (''Installation failed at step '' @ [CHR 0x27]
                                    @ fst (install_steps self ! k) @ [CHR 0x27])
                                 None)))) \<and>
            (\<forall>e cause. outcome_at (install_steps self) k w0 = Raises e cause \<longrightarrow>
               fst (install self st) =
                 (if is_Exception e
                  then Inl (ServerInstallationError
                              (''Installation failed at step '' @ [CHR 0x27]
                                 @ fst (install_steps self ! k) @ [CHR 0x27] @ '': '' @ cause)
                              (Some e))
                  else Inl e)) \<and>
            world (snd (install self st)) = world_after (install_steps self) (Suc k) w0 \<and>
            started_steps (log_records (snd (install self st))) =
              started_steps (log_records st) @ map fst (take (Suc k) (install_steps self))"
  proof (intro allI impI)
    fix k :: nat
    assume k: "k < 5"
    assume h: "(\<forall>i<k. outcome_at (install_steps self) i w0 = Returns True) \<and>
                 outcome_at (install_steps self) k w0 \<noteq> Returns True"
    have k': "k < length (install_steps self)" using k by (simp add: length_install_steps)
    from h have a: "\<forall>i<k. outcome_at (install_steps self) i (world st1) = Returns True"
      and b: "outcome_at (install_steps self) k (world st1) \<noteq> Returns True"
      by (simp_all add: w)
    note f = run_steps_fail [OF k' a b, unfolded w]
    from f have e: "fst (install self st) =
        Inl (case outcome_at (install_steps self) k w0 of
            Returns b \<Rightarrow>
              ServerInstallationError
                (step_error_msg (fst (install_steps self ! k)) (step_failed_msg (fst (install_steps self ! k))))
                (Some (ServerInstallationError (step_failed_msg (fst (install_steps self ! k))) None))
          | Raises e cause \<Rightarrow>
              if is_Exception e
              then ServerInstallationError (step_error_msg (fst (install_steps self ! k)) cause) (Some e)
              else e)"
      by (simp add: r)
    have c1: "outcome_at (install_steps self) k w0 = Returns False \<longrightarrow>
               fst (install self st) =
                 Inl (ServerInstallationError
                        (''Installation failed at step '' @ [CHR 0x27] @ fst (install_steps self ! k)
                           @ [CHR 0x27] @ '': '' @
                         ''Installation failed at step '' @ [CHR 0x27] @ fst (install_steps self ! k)
                           @ [CHR 0x27])
                        (Some (ServerInstallationError
                                 (''Installation failed at step '' @ [CHR 0x27]
                                    @ fst (install_steps self ! k) @ [CHR 0x27])
                                 None)))"
      by (simp add: e step_error_msg_def step_failed_msg_def apostrophe_def)
    have c2: "\<forall>e cause. outcome_at (install_steps self) k w0 = Raises e cause \<longrightarrow>
               fst (install self st) =
                 (if is_Exception e
                  then Inl (ServerInstallationError
                              (''Installation failed at step '' @ [CHR 0x27]
                                 @ fst (install_steps self ! k) @ [CHR 0x27] @ '': '' @ cause)
                              (Some e))
                  else Inl e)"
      by (simp add: e step_error_msg_def step_failed_msg_def apostrophe_def)
    have c3: "world (snd (install self st)) = world_after (install_steps self) (Suc k) w0"
      using f by (simp add: rw)
    have c4: "started_steps (log_records (snd (install self st))) =
              started_steps (log_records st) @ map fst (take (Suc k) (install_steps self))"
      using f by (simp add: rl l)
    from c1 c2 c3 c4 show "(outcome_at (install_steps self) k w0 = Returns False \<longrightarrow>
               fst (install self st) =
                 Inl (ServerInstallationError
                        (''Installation failed at step '' @ [CHR 0x27] @ fst (install_steps self ! k)
                           @ [CHR 0x27] @ '': '' @
                         ''Installation failed at step '' @ [CHR 0x27] @ fst (install_steps self ! k)
                           @ [CHR 0x27])
                        (Some (ServerInstallationError
                                 (''Installation failed at step '' @ [CHR 0x27]
                                    @ fst (install_steps self ! k) @ [CHR 0x27])
                                 None)))) \<and>
            (\<forall>e cause. outcome_at (install_steps self) k w0 = Raises e cause \<longrightarrow>
               fst (install self st) =
                 (if is_Exception e
                  then Inl (ServerInstallationError
                              (''Installation failed at step '' @ [CHR 0x27]
                                 @ fst (install_steps self ! k) @ [CHR 0x27] @ '': '' @ cause)
                              (Some e))
                  else Inl e)) \<and>
            world (snd (install self st)) = world_after (install_steps self) (Suc k) w0 \<and>
            started_steps (log_records (snd (install self st))) =
              started_steps (log_records st) @ map fst (take (Suc k) (install_steps self))"
      by (intro conjI)
  qed
  show ?thesis
    by (rule conjI [OF names conjI [OF funs conjI [OF ok bad]]])
qed


theorem install_pipeline_witness:
  "install_directory example_methods (world \<lparr>world = [], log_records = []\<rparr>) =
     (Directory ''/home/u/minecraft_servers/paper-1.21'', [''mkdir'']) \<and>
   outcome_at (install_steps example_methods) 0 [''mkdir''] = Returns True \<and>
   outcome_at (install_steps example_methods) 1 [''mkdir''] = Raises DownloadError ''connection reset'' \<and>
   is_Exception DownloadError \<and>
   fst (install example_methods \<lparr>world = [], log_records = []\<rparr>) =
     Inl (ServerInstallationError
            ''Installation failed at step 'Server jar download': connection reset''
            (Some DownloadError)) \<and>
   world (snd (install example_methods \<lparr>world = [], log_records = []\<rparr>)) =
     [''mkdir'', ''java'', ''partial jar''] \<and>
   started_steps (log_records (snd (install example_methods \<lparr>world = [], log_records = []\<rparr>))) =
     [''Java installation'', ''Server jar download'']"
proof -
  have d: "install_directory example_methods (world \<lparr>world = [], log_records = []\<rparr>) =
     (Directory ''/home/u/minecraft_servers/paper-1.21'', [''mkdir''])"
    by (simp add: example_methods_def)
  have o0: "outcome_at (install_steps example_methods) 0 [''mkdir''] = Returns True"
    by (simp add: outcome_at_def install_steps_def example_methods_def)
  have o1: "outcome_at (install_steps example_methods) 1 [''mkdir''] =
              Raises DownloadError ''connection reset''"
    by (simp add: outcome_at_def install_steps_def example_methods_def)
  have w2: "world_after (install_steps example_methods) (Suc 1) [''mkdir''] =
              [''mkdir'', ''java'', ''partial jar'']"
    by (simp add: install_steps_def example_methods_def)
  have n1: "fst (install_steps example_methods ! 1) = ''Server jar download''"
    by (simp add: install_steps_def)
  have t2: "map fst (take (Suc 1) (install_steps example_methods)) =
              [''Java installation'', ''Server jar download'']"
    by (simp add: install_steps_def)
  have s0: "started_steps (log_records \<lparr>world = ([]::string list), log_records = []\<rparr>) = []"
    by (simp add: started_steps_def)
  have all1: "\<forall>i<(1::nat). outcome_at (install_steps example_methods) i [''mkdir''] = Returns True"
    using o0 by simp
  note fail = install_pipeline [OF d, THEN conjunct2, THEN conjunct2, THEN conjunct2, rule_format, of 1]
  have f: "(outcome_at (install_steps example_methods) 1 [''mkdir''] = Returns False \<longrightarrow>
               fst (install example_methods \<lparr>world = [], log_records = []\<rparr>) =
                 Inl (ServerInstallationError
                        (''Installation failed at step '' @ [CHR 0x27] @ fst (install_steps example_methods ! 1)
                           @ [CHR 0x27] @ '': '' @
                         ''Installation failed at step '' @ [CHR 0x27] @ fst (install_steps example_methods ! 1)
                           @ [CHR 0x27])
                        (Some (ServerInstallationError
                                 (''Installation failed at step '' @ [CHR 0x27]
                                    @ fst (install_steps example_methods ! 1) @ [CHR 0x27])
                                 None)))) \<and>
            (\<forall>e cause. outcome_at (install_steps example_methods) 1 [''mkdir''] = Raises e cause \<longrightarrow>
               fst (install example_methods \<lparr>world = [], log_records = []\<rparr>) =
                 (if is_Exception e
                  then Inl (ServerInstallationError
                              (''Installation failed at step '' @ [CHR 0x27]
                                 @ fst (install_steps example_methods ! 1) @ [CHR 0x27] @ '': '' @ cause)
                              (Some e))
                  else Inl e)) \<and>
            world (snd (install example_methods \<lparr>world = [], log_records = []\<rparr>)) =
              world_after (install_steps example_methods) (Suc 1) [''mkdir''] \<and>
            started_steps (log_records (snd (install example_methods \<lparr>world = [], log_records = []\<rparr>))) =
              started_steps (log_records \<lparr>world = ([]::string list), log_records = []\<rparr>) @
              map fst (take (Suc 1) (install_steps example_methods))"
  proof (rule fail)
    show "(1::nat) < 5" by simp
    show "(\<forall>i<1. outcome_at (install_steps example_methods) i [''mkdir''] = Returns True) \<and>
          outcome_at (install_steps example_methods) 1 [''mkdir''] \<noteq> Returns True"
      using all1 o1 by simp
  qed
  from f o1 have r: "fst (install example_methods \<lparr>world = [], log_records = []\<rparr>) =
       Inl (ServerInstallationError
              (''Installation failed at step '' @ [CHR 0x27] @ fst (install_steps example_methods ! 1)
                 @ [CHR 0x27] @ '': '' @ ''connection reset'')
              (Some DownloadError))"
    by simp
  have m: "''Installation failed at step '' @ [CHR 0x27] @ fst (install_steps example_methods ! 1)
                 @ [CHR 0x27] @ '': '' @ ''connection reset'' =
           ''Installation failed at step 'Server jar download': connection reset''"
    unfolding n1 by simp
  from f have wl: "world (snd (install example_methods \<lparr>world = [], log_records = []\<rparr>)) =
              world_after (install_steps example_methods) (Suc 1) [''mkdir'']"
     and sl: "started_steps (log_records (snd (install example_methods \<lparr>world = [], log_records = []\<rparr>))) =
              started_steps (log_records \<lparr>world = ([]::string list), log_records = []\<rparr>) @
              map fst (take (Suc 1) (install_steps example_methods))"
    by blast+
  show ?thesis
    using d o0 o1 r wl sl unfolding m w2 t2 s0 by simp
qed

text \<open>
  The claim as it is worded, that a step which throws always ends in a
  \<^verbatim>\<open>ServerInstallationError\<close>, fails when the exception is not derived from
  \<^verbatim>\<open>Exception\<close>: cancelling the task while the download is awaited makes
  \<^verbatim>\<open>install\<close> raise \<^verbatim>\<open>asyncio.CancelledError\<close> itself.
\<close>

theorem install_cancelled_counterexample:
  "install_directory cancelled_methods (world \<lparr>world = [], log_records = []\<rparr>) =
     (Directory ''/home/u/minecraft_servers/paper-1.21'', [''mkdir'']) \<and>
   outcome_at (install_steps cancelled_methods) 0 [''mkdir''] = Returns True \<and>
   outcome_at (install_steps cancelled_methods) 1 [''mkdir''] = Raises CancelledError [] \<and>
   fst (install cancelled_methods \<lparr>world = [], log_records = []\<rparr>) = Inl CancelledError"
  by (simp add: install_def run_steps.simps install_steps_def cancelled_methods_def example_methods_def
        outcome_at_def log_to_def Let_def)

end
